theory Spec2Isabelle
  imports Complex_Main
begin

section \<open>Python values of the client\<close>

text \<open>
  Everything the client reads from the model API is the result of \<open>response.json()\<close>:
  \<open>None\<close>, booleans, integers, floats, strings, lists and dicts with string keys.
  A float is kept as the rational number it stands for (every finite double is one);
  only its truth value and its equality with other numbers are ever inspected.
  A dict is an association list in insertion order, with distinct keys.
\<close>

datatype json =
    JNone
  | JBool bool
  | JInt int
  | JFloat rat
  | JStr string
  | JList "json list"
  | JDict "(string \<times> json) list"

text \<open>The exceptions of the client, one constructor per raising site or library.\<close>

datatype exn =
    UnknownPredictionMethod string  \<comment> \<open>the \<open>ValueError\<close> of \<open>predict\<close>\<close>
  | UnexpectedValue                 \<comment> \<open>the \<open>ValueError\<close> of \<open>dec_or_iterate\<close>\<close>
  | KeyError json
  | IndexError
  | TypeError
  | AttributeError
  | JSONDecodeError                 \<comment> \<open>\<open>response.json()\<close> on a body that is not JSON\<close>
  | HTTPError int                   \<comment> \<open>\<open>response.raise_for_status()\<close>\<close>
  | RequestError string             \<comment> \<open>raised by \<open>requests\<close>\<close>
  | SleepError                      \<comment> \<open>\<open>time.sleep\<close> of a negative length\<close>
  | NumpyError string               \<comment> \<open>raised inside \<open>base64\<close> or \<open>numpy\<close>\<close>

text \<open>Truth value testing (\<open>if x\<close>, \<open>not x\<close>).\<close>

fun truthy :: "json \<Rightarrow> bool" where
  "truthy JNone = False"
| "truthy (JBool b) = b"
| "truthy (JInt i) = (i \<noteq> 0)"
| "truthy (JFloat r) = (r \<noteq> 0)"
| "truthy (JStr s) = (s \<noteq> [])"
| "truthy (JList xs) = (xs \<noteq> [])"
| "truthy (JDict kvs) = (kvs \<noteq> [])"

text \<open>
  \<open>==\<close> on these values: numbers (booleans included) compare by value across their
  types, lists pointwise, dicts as finite maps, and values of different kinds are unequal.
\<close>

fun num_of :: "json \<Rightarrow> rat option" where
  "num_of (JBool b) = Some (if b then 1 else 0)"
| "num_of (JInt i) = Some (of_int i)"
| "num_of (JFloat r) = Some r"
| "num_of _ = None"

fun py_eq :: "json \<Rightarrow> json \<Rightarrow> bool"
  and py_eq_list :: "json list \<Rightarrow> json list \<Rightarrow> bool"
  and py_eq_items :: "(string \<times> json) list \<Rightarrow> (string \<times> json) list \<Rightarrow> bool" where
  "py_eq JNone y = (y = JNone)"
| "py_eq (JBool b) y = (num_of y = Some (if b then 1 else 0))"
| "py_eq (JInt i) y = (num_of y = Some (of_int i))"
| "py_eq (JFloat r) y = (num_of y = Some r)"
| "py_eq (JStr s) y = (y = JStr s)"
| "py_eq (JList xs) y = (case y of JList ys \<Rightarrow> py_eq_list xs ys | _ \<Rightarrow> False)"
| "py_eq (JDict kvs) y =
     (case y of JDict kws \<Rightarrow> length kvs = length kws \<and> py_eq_items kvs kws | _ \<Rightarrow> False)"
| "py_eq_list [] ys = (ys = [])"
| "py_eq_list (x # xs) ys = (case ys of [] \<Rightarrow> False | y # ys' \<Rightarrow> py_eq x y \<and> py_eq_list xs ys')"
| "py_eq_items [] kws = True"
| "py_eq_items ((k, v) # kvs) kws =
     (case map_of kws k of None \<Rightarrow> False | Some w \<Rightarrow> py_eq v w \<and> py_eq_items kvs kws)"

text \<open>\<open>x[key]\<close> with a string key.\<close>

fun getitem :: "json \<Rightarrow> string \<Rightarrow> exn + json" where
  "getitem (JDict kvs) k = (case map_of kvs k of None \<Rightarrow> Inl (KeyError (JStr k)) | Some v \<Rightarrow> Inr v)"
| "getitem _ k = Inl TypeError"

text \<open>\<open>x[0]\<close>.\<close>

fun getitem0 :: "json \<Rightarrow> exn + json" where
  "getitem0 (JList xs) = (case xs of [] \<Rightarrow> Inl IndexError | x # _ \<Rightarrow> Inr x)"
| "getitem0 (JStr s) = (case s of [] \<Rightarrow> Inl IndexError | c # _ \<Rightarrow> Inr (JStr [c]))"
| "getitem0 (JDict kvs) = Inl (KeyError (JInt 0))"
| "getitem0 _ = Inl TypeError"

text \<open>The elements a \<open>for\<close> loop over the value visits: a dict yields its keys.\<close>

fun py_iter :: "json \<Rightarrow> exn + json list" where
  "py_iter (JList xs) = Inr xs"
| "py_iter (JDict kvs) = Inr (map (\<lambda>kv. JStr (fst kv)) kvs)"
| "py_iter (JStr s) = Inr (map (\<lambda>c. JStr [c]) s)"
| "py_iter _ = Inl TypeError"

text \<open>\<open>x.values()\<close>: only a dict has the method.\<close>

fun py_values :: "json \<Rightarrow> exn + json list" where
  "py_values (JDict kvs) = Inr (map snd kvs)"
| "py_values _ = Inl AttributeError"

text \<open>
  A dict built by the client itself (\<open>models_in_deployment\<close>) has the model names the
  server reports as keys, so any hashable value. Lists and dicts are not hashable.
\<close>

type_synonym pydict = "(json \<times> json) list"

fun hashable :: "json \<Rightarrow> bool" where
  "hashable (JList _) = False"
| "hashable (JDict _) = False"
| "hashable _ = True"

fun dict_lookup :: "pydict \<Rightarrow> json \<Rightarrow> json option" where
  "dict_lookup [] k = None"
| "dict_lookup ((k', v) # d) k = (if py_eq k' k then Some v else dict_lookup d k)"

text \<open>\<open>d[k] = v\<close>: an existing key keeps its place (and its first spelling).\<close>

fun dict_store :: "pydict \<Rightarrow> json \<Rightarrow> json \<Rightarrow> pydict" where
  "dict_store [] k v = [(k, v)]"
| "dict_store ((k', v') # d) k v = (if py_eq k' k then (k', v) # d else (k', v') # dict_store d k v)"

definition dict_setitem :: "pydict \<Rightarrow> json \<Rightarrow> json \<Rightarrow> exn + pydict" where
  "dict_setitem d k v = (if hashable k then Inr (dict_store d k v) else Inl TypeError)"

text \<open>\<open>d.get(k, default)\<close>.\<close>

definition dict_get :: "pydict \<Rightarrow> json \<Rightarrow> json \<Rightarrow> exn + json" where
  "dict_get d k dflt =
     (if hashable k then Inr (case dict_lookup d k of None \<Rightarrow> dflt | Some v \<Rightarrow> v)
      else Inl TypeError)"


section \<open>The transport\<close>

text \<open>
  A request is what the client hands to \<open>requests\<close>: the HTTP verb, the URL, the
  \<open>json=\<close> body and the \<open>verify=\<close> flag. The URL is kept in parts, the base
  (\<open>SQUARE_API_URL\<close>, absent when the variable is unset) and the path with the values
  formatted into it.

  Modelled from the spec: \<open>client_credentials\<close> is imported from the package and is not
  among the sources. The specification has it as ``a zero-argument capability returning a
  bearer token string'': it returns a token and does not raise. The token goes into the
  \<open>Authorization\<close> header and nowhere else, and the requests of the model leave that
  header out.
\<close>

datatype verb = GET | POST

datatype path =
    Main_task_result json           \<comment> \<open>\<open>/main/task_result/{task_id}\<close>\<close>
  | Main_predict string string      \<comment> \<open>\<open>/main/{model_identifier}/{prediction_method}\<close>\<close>
  | Models_deployed_models          \<comment> \<open>\<open>/models/deployed-models\<close>\<close>
  | Models_deploy                   \<comment> \<open>\<open>/models/deploy\<close>\<close>
  | Models_task                     \<comment> \<open>\<open>/models/task\<close>\<close>

record request =
  verb :: verb
  base :: "string option"
  path :: path
  payload :: "json option"
  verify :: bool

text \<open>
  A response has a status code and a body; \<open>parsed\<close> is what \<open>response.json()\<close>
  returns, \<open>None\<close> when the body is not JSON and the call raises.
\<close>

record response =
  status_code :: int
  parsed :: "json option"

text \<open>
  What the client does to the outside is a trace of events, requests sent and sleeps.
  The outside is a function of that trace: to the trace ending in the request just sent it
  answers with a response, or \<open>requests\<close> raises (no connection).
\<close>

datatype event = Sent request | Slept int

type_synonym trace = "event list"

datatype outcome = Raises string | Reply response

type_synonym server = "trace \<Rightarrow> outcome"

definition http :: "server \<Rightarrow> request \<Rightarrow> trace \<Rightarrow> (exn + response) \<times> trace" where
  "http N rq t =
     (let t' = t @ [Sent rq]
      in (case N t' of Raises m \<Rightarrow> Inl (RequestError m) | Reply r \<Rightarrow> Inr r, t'))"

definition response_json :: "response \<Rightarrow> exn + json" where
  "response_json r = (case parsed r of None \<Rightarrow> Inl JSONDecodeError | Some j \<Rightarrow> Inr j)"

definition raise_for_status :: "response \<Rightarrow> exn + unit" where
  "raise_for_status r =
     (if 400 \<le> status_code r \<and> status_code r < 600 then Inl (HTTPError (status_code r))
      else Inr ())"

definition sleep :: "int \<Rightarrow> trace \<Rightarrow> (exn + unit) \<times> trace" where
  "sleep secs t = (if secs < 0 then (Inl SleepError, t) else (Inr (), t @ [Slept secs]))"

section \<open>The client\<close>

record client =
  square_api_url :: "string option"
  verify_ssl :: bool
  max_attempts :: int
  poll_interval :: int

text \<open>\<open>__init__\<close>, from the values of \<open>SQUARE_API_URL\<close> and \<open>VERIFY_SSL\<close>.\<close>

definition init :: "string option \<Rightarrow> string option \<Rightarrow> client" where
  "init api_url verify_env =
     \<lparr>square_api_url = api_url, verify_ssl = (verify_env = Some ''1''),
      max_attempts = 50, poll_interval = 2\<rparr>"

subsection \<open>Waiting for a task\<close>

text \<open>
  The \<open>while\<close> loop of \<open>_wait_for_task\<close>, from the current value of \<open>attempts\<close>;
  it yields the final value of \<open>result\<close>, which is \<open>None\<close> unless a response had
  status 200.
\<close>

function wait_loop ::
  "client \<Rightarrow> server \<Rightarrow> json \<Rightarrow> int \<Rightarrow> int \<Rightarrow> int \<Rightarrow> trace \<Rightarrow> (exn + json) \<times> trace" where
  "wait_loop C N task_id max_att interval attempts t =
     (if attempts < max_att then
        (case http N \<lparr>verb = GET, base = square_api_url C, path = Main_task_result task_id,
                       payload = None, verify = verify_ssl C\<rparr> t of
           (Inl e, t1) \<Rightarrow> (Inl e, t1)
         | (Inr response, t1) \<Rightarrow>
             (case response_json response of
                Inl e \<Rightarrow> (Inl e, t1)
              | Inr resp \<Rightarrow>
                  if status_code response = 200 then (Inr resp, t1)
                  else (case sleep interval t1 of
                          (Inl e, t2) \<Rightarrow> (Inl e, t2)
                        | (Inr _, t2) \<Rightarrow>
                            wait_loop C N task_id max_att interval (attempts + 1) t2)))
      else (Inr JNone, t))"
  by pat_completeness auto
termination
  by (relation "measure (\<lambda>(C, N, task_id, max_att, interval, attempts, t). nat (max_att - attempts))")
    auto

definition wait_for_task ::
  "client \<Rightarrow> server \<Rightarrow> json \<Rightarrow> int option \<Rightarrow> int option \<Rightarrow> trace \<Rightarrow> (exn + json) \<times> trace" where
  "wait_for_task C N task_id max_att interval t =
     (let max_att = (case max_att of None \<Rightarrow> max_attempts C | Some m \<Rightarrow> m);
          interval = (case interval of None \<Rightarrow> poll_interval C | Some p \<Rightarrow> p)
      in case wait_loop C N task_id max_att interval 0 t of
           (Inl e, t') \<Rightarrow> (Inl e, t')
         | (Inr result, t') \<Rightarrow> (getitem result ''result'', t'))"

subsection \<open>The facade\<close>

text \<open>
  An operation that starts a task returns either the task's result or, when the status
  is not 200, the \<open>Response\<close> object itself.
\<close>

datatype returned = Result json | Response response

definition supported_prediction_methods :: "string list" where
  "supported_prediction_methods =
     [''embedding'', ''sequence-classification'', ''token-classification'', ''generation'',
      ''question-answering'']"

definition predict ::
  "client \<Rightarrow> server \<Rightarrow> string \<Rightarrow> string \<Rightarrow> json \<Rightarrow> trace \<Rightarrow> (exn + returned) \<times> trace" where
  "predict C N model_identifier prediction_method input_data t =
     (if prediction_method \<notin> set supported_prediction_methods
      then (Inl (UnknownPredictionMethod prediction_method), t)
      else
        (case http N \<lparr>verb = POST, base = square_api_url C,
                       path = Main_predict model_identifier prediction_method,
                       payload = Some input_data, verify = verify_ssl C\<rparr> t of
           (Inl e, t1) \<Rightarrow> (Inl e, t1)
         | (Inr response, t1) \<Rightarrow>
             (case response_json response of
                Inl e \<Rightarrow> (Inl e, t1)
              | Inr result \<Rightarrow>
                  if status_code response = 200 then
                    (case getitem result ''task_id'' of
                       Inl e \<Rightarrow> (Inl e, t1)
                     | Inr task_id \<Rightarrow>
                         (case wait_for_task C N task_id None None t1 of
                            (Inl e, t2) \<Rightarrow> (Inl e, t2)
                          | (Inr v, t2) \<Rightarrow> (Inr (Result v), t2)))
                  else (Inr (Response response), t1))))"

definition deployed_models :: "client \<Rightarrow> server \<Rightarrow> trace \<Rightarrow> (exn + json) \<times> trace" where
  "deployed_models C N t =
     (case http N \<lparr>verb = GET, base = square_api_url C, path = Models_deployed_models,
                    payload = None, verify = verify_ssl C\<rparr> t of
        (Inl e, t1) \<Rightarrow> (Inl e, t1)
      | (Inr response, t1) \<Rightarrow> (response_json response, t1))"

definition deploy ::
  "client \<Rightarrow> server \<Rightarrow> json \<Rightarrow> trace \<Rightarrow> (exn + returned) \<times> trace" where
  "deploy C N model_attributes t =
     (case http N \<lparr>verb = POST, base = square_api_url C, path = Models_deploy,
                    payload = Some model_attributes, verify = verify_ssl C\<rparr> t of
        (Inl e, t1) \<Rightarrow> (Inl e, t1)
      | (Inr response, t1) \<Rightarrow>
          (case response_json response of
             Inl e \<Rightarrow> (Inl e, t1)
           | Inr result \<Rightarrow>
               if status_code response = 200 then
                 (case getitem result ''task_id'' of
                    Inl e \<Rightarrow> (Inl e, t1)
                  | Inr task_id \<Rightarrow>
                      (case wait_for_task C N task_id None (Some 20) t1 of
                         (Inl e, t2) \<Rightarrow> (Inl e, t2)
                       | (Inr v, t2) \<Rightarrow> (Inr (Result v), t2)))
               else (Inr (Response response), t1)))"

text \<open>
  The three nested loops of \<open>get_models_in_deployment\<close>, innermost first; each threads
  the dict \<open>models_in_deployment\<close> and stops at the first exception.
\<close>

fun scan_tasks :: "json list \<Rightarrow> pydict \<Rightarrow> exn + pydict" where
  "scan_tasks [] d = Inr d"
| "scan_tasks (task # rest) d =
     (case getitem task ''name'' of
        Inl e \<Rightarrow> Inl e
      | Inr name \<Rightarrow>
          if py_eq name (JStr ''tasks.tasks.deploy_task'') then
            (case getitem task ''args'' of
               Inl e \<Rightarrow> Inl e
             | Inr args \<Rightarrow>
                 (case getitem0 args of
                    Inl e \<Rightarrow> Inl e
                  | Inr arg \<Rightarrow>
                      (case getitem arg ''MODEL_NAME'' of
                         Inl e \<Rightarrow> Inl e
                       | Inr model_name \<Rightarrow>
                           (case getitem arg ''MODEL_TYPE'' of
                              Inl e \<Rightarrow> Inl e
                            | Inr model_type \<Rightarrow>
                                (case dict_setitem d model_name model_type of
                                   Inl e \<Rightarrow> Inl e
                                 | Inr d' \<Rightarrow> scan_tasks rest d')))))
          else scan_tasks rest d)"

fun scan_queues :: "json list \<Rightarrow> pydict \<Rightarrow> exn + pydict" where
  "scan_queues [] d = Inr d"
| "scan_queues (tasks # rest) d =
     (case py_iter tasks of
        Inl e \<Rightarrow> Inl e
      | Inr ts \<Rightarrow> (case scan_tasks ts d of Inl e \<Rightarrow> Inl e | Inr d' \<Rightarrow> scan_queues rest d'))"

fun scan_workers :: "json list \<Rightarrow> pydict \<Rightarrow> exn + pydict" where
  "scan_workers [] d = Inr d"
| "scan_workers (worker2tasks # rest) d =
     (case py_values worker2tasks of
        Inl e \<Rightarrow> Inl e
      | Inr qs \<Rightarrow> (case scan_queues qs d of Inl e \<Rightarrow> Inl e | Inr d' \<Rightarrow> scan_workers rest d'))"

definition get_models_in_deployment ::
  "client \<Rightarrow> server \<Rightarrow> trace \<Rightarrow> (exn + pydict) \<times> trace" where
  "get_models_in_deployment C N t =
     (case http N \<lparr>verb = GET, base = square_api_url C, path = Models_task,
                    payload = None, verify = True\<rparr> t of
        (Inl e, t1) \<Rightarrow> (Inl e, t1)
      | (Inr response, t1) \<Rightarrow>
          (case raise_for_status response of
             Inl e \<Rightarrow> (Inl e, t1)
           | Inr _ \<Rightarrow>
               (case response_json response of
                  Inl e \<Rightarrow> (Inl e, t1)
                | Inr running_tasks \<Rightarrow>
                    (case py_values running_tasks of
                       Inl e \<Rightarrow> (Inl e, t1)
                     | Inr ws \<Rightarrow> (scan_workers ws [], t1)))))"

subsection \<open>The deployment guard\<close>

text \<open>
  The generator inside \<open>any(...)\<close>, evaluated left to right: \<open>and\<close> reads
  \<open>model['model_type']\<close> only where the names are equal, and \<open>any\<close> stops at the
  first record that matches.
\<close>

fun any_deployed :: "json list \<Rightarrow> json \<Rightarrow> string \<Rightarrow> exn + bool" where
  "any_deployed [] model_name model_type = Inr False"
| "any_deployed (model # rest) model_name model_type =
     (case getitem model ''model_name'' of
        Inl e \<Rightarrow> Inl e
      | Inr n \<Rightarrow>
          if py_eq n model_name then
            (case getitem model ''model_type'' of
               Inl e \<Rightarrow> Inl e
             | Inr ty \<Rightarrow>
                 if py_eq ty (JStr model_type) then Inr True
                 else any_deployed rest model_name model_type)
          else any_deployed rest model_name model_type)"

definition deploy_model_if_not_exists ::
  "client \<Rightarrow> server \<Rightarrow> (string \<times> json) list \<Rightarrow> trace \<Rightarrow> (exn + unit) \<times> trace" where
  "deploy_model_if_not_exists C N default_skill_args t =
     (let model_name = (case map_of default_skill_args ''base_model'' of
                          None \<Rightarrow> JNone | Some v \<Rightarrow> v)
      in if \<not> truthy model_name then (Inr (), t)
         else
           let model_type = (if ''adapter'' \<in> set (map fst default_skill_args)
                             then ''adapter'' else ''transformer'')
           in case deployed_models C N t of
                (Inl e, t1) \<Rightarrow> (Inl e, t1)
              | (Inr deployed, t1) \<Rightarrow>
                  (case py_iter deployed of
                     Inl e \<Rightarrow> (Inl e, t1)
                   | Inr models \<Rightarrow>
                       (case any_deployed models model_name model_type of
                          Inl e \<Rightarrow> (Inl e, t1)
                        | Inr True \<Rightarrow> (Inr (), t1)
                        | Inr False \<Rightarrow>
                            (case get_models_in_deployment C N t1 of
                               (Inl e, t2) \<Rightarrow> (Inl e, t2)
                             | (Inr currently_deploying_models, t2) \<Rightarrow>
                                 (case dict_get currently_deploying_models model_name (JStr []) of
                                    Inl e \<Rightarrow> (Inl e, t2)
                                  | Inr ty \<Rightarrow>
                                      if py_eq ty (JStr model_type) then (Inr (), t2)
                                      else
                                        (case deploy C N
                                                (JDict [(''identifier'', model_name),
                                                        (''model_name'', model_name),
                                                        (''model_type'', JStr model_type)]) t2 of
                                           (Inl e, t3) \<Rightarrow> (Inl e, t3)
                                         | (Inr _, t3) \<Rightarrow> (Inr (), t3)))))))"

section \<open>The payload codec\<close>

text \<open>
  After decoding, a response holds \<open>numpy\<close> arrays next to the values it came with.
  The arrays are values of a type \<open>'a\<close> of their own.
\<close>

datatype 'a pyval =
    PNone
  | PBool bool
  | PInt int
  | PFloat rat
  | PStr string
  | PList "'a pyval list"
  | PDict "(string \<times> 'a pyval) list"
  | PArr 'a

fun of_json :: "json \<Rightarrow> 'a pyval" where
  "of_json JNone = PNone"
| "of_json (JBool b) = PBool b"
| "of_json (JInt i) = PInt i"
| "of_json (JFloat r) = PFloat r"
| "of_json (JStr s) = PStr s"
| "of_json (JList xs) = PList (map of_json xs)"
| "of_json (JDict kvs) = PDict (map (\<lambda>kv. (fst kv, of_json (snd kv))) kvs)"

text \<open>
  What the codec takes from \<open>base64\<close> and \<open>numpy\<close>. Each function returns its result
  or the message of the exception it raises.
  \<^item> \<open>b64_decodebytes s\<close> is \<open>base64.decodebytes(s.encode())\<close>;
  \<^item> \<open>np_load b\<close> is \<open>np.load(BytesIO(b))\<close>;
  \<^item> \<open>np_array v\<close> is \<open>np.array(v)\<close>;
  \<^item> \<open>ndarray_bool a\<close> is the truth value of an array (an array of several elements has none);
  \<^item> \<open>ndarray_dec a\<close> is what \<open>dec_or_iterate\<close> does with an array: an array is
    iterable, and its elements are numpy's own objects.
\<close>

record 'a numpy =
  b64_decodebytes :: "string \<Rightarrow> string + string"
  np_load :: "string \<Rightarrow> string + 'a"
  np_array :: "'a pyval \<Rightarrow> string + 'a"
  ndarray_bool :: "'a \<Rightarrow> string + bool"
  ndarray_dec :: "'a \<Rightarrow> exn + 'a pyval"

text \<open>
  A comprehension whose body may raise: the elements are visited in order, and the first
  exception ends it.
\<close>

fun comprehension :: "('b \<Rightarrow> exn + 'c) \<Rightarrow> 'b list \<Rightarrow> exn + 'c list" where
  "comprehension f [] = Inr []"
| "comprehension f (x # xs) =
     (case f x of
        Inl e \<Rightarrow> Inl e
      | Inr y \<Rightarrow> (case comprehension f xs of Inl e \<Rightarrow> Inl e | Inr ys \<Rightarrow> Inr (y # ys)))"

lemma comprehension_cong [fundef_cong]:
  "xs = ys \<Longrightarrow> (\<And>x. x \<in> set ys \<Longrightarrow> f x = g x) \<Longrightarrow> comprehension f xs = comprehension g ys"
  by (induction ys arbitrary: xs) (auto split: sum.splits)

text \<open>\<open>_decode\<close>: from the base64 text of a serialised array to the array.\<close>

definition decode :: "'a numpy \<Rightarrow> string \<Rightarrow> exn + 'a" where
  "decode L arr_string_b64 =
     (case b64_decodebytes L arr_string_b64 of
        Inl m \<Rightarrow> Inl (NumpyError m)
      | Inr arr_binary \<Rightarrow>
          (case np_load L arr_binary of Inl m \<Rightarrow> Inl (NumpyError m) | Inr arr \<Rightarrow> Inr arr))"

text \<open>
  \<open>dec_or_iterate\<close>. A string is a leaf. Lists and dicts are the iterables among the
  values of a response, and iterating a dict visits its keys, which are strings.
\<close>

fun dec_or_iterate :: "'a numpy \<Rightarrow> 'a pyval \<Rightarrow> exn + 'a pyval" where
  "dec_or_iterate L (PStr s) = (case decode L s of Inl e \<Rightarrow> Inl e | Inr arr \<Rightarrow> Inr (PArr arr))"
| "dec_or_iterate L (PList vs) =
     (case comprehension (dec_or_iterate L) vs of Inl e \<Rightarrow> Inl e | Inr ws \<Rightarrow> Inr (PList ws))"
| "dec_or_iterate L (PDict kvs) =
     (case comprehension (\<lambda>k. case decode L k of Inl e \<Rightarrow> Inl e | Inr arr \<Rightarrow> Inr (PArr arr))
             (map fst kvs) of
        Inl e \<Rightarrow> Inl e
      | Inr ws \<Rightarrow> Inr (PList ws))"
| "dec_or_iterate L (PArr a) = ndarray_dec L a"
| "dec_or_iterate L _ = Inl UnexpectedValue"

subsection \<open>Objects and the store\<close>

text \<open>
  \<open>decode_model_api_response\<close> assigns to an entry of the dict it is given, so the dict
  is an object in a store, known by its address. An object is a value or a
  \<open>Response\<close> (which \<open>predict\<close> may return).
\<close>

datatype 'a obj = Obj "'a pyval" | ResponseObj response

type_synonym addr = nat

type_synonym 'a heap = "addr \<Rightarrow> 'a obj"

text \<open>\<open>x[key]\<close> and \<open>x[key] = v\<close> with a string key; an array takes no string index.\<close>

fun obj_getitem :: "'a obj \<Rightarrow> string \<Rightarrow> exn + 'a pyval" where
  "obj_getitem (Obj (PDict kvs)) k =
     (case map_of kvs k of None \<Rightarrow> Inl (KeyError (JStr k)) | Some v \<Rightarrow> Inr v)"
| "obj_getitem (Obj (PArr a)) k = Inl IndexError"
| "obj_getitem _ k = Inl TypeError"

fun dict_assign :: "string \<Rightarrow> 'a pyval \<Rightarrow> (string \<times> 'a pyval) list \<Rightarrow> (string \<times> 'a pyval) list" where
  "dict_assign k v [] = [(k, v)]"
| "dict_assign k v ((k', v') # kvs) = (if k' = k then (k, v) # kvs else (k', v') # dict_assign k v kvs)"

fun obj_setitem :: "'a obj \<Rightarrow> string \<Rightarrow> 'a pyval \<Rightarrow> exn + 'a obj" where
  "obj_setitem (Obj (PDict kvs)) k v = Inr (Obj (PDict (dict_assign k v kvs)))"
| "obj_setitem (Obj (PArr a)) k v = Inl IndexError"
| "obj_setitem _ k v = Inl TypeError"

text \<open>\<open>x.items()\<close>: only a dict has the method.\<close>

fun py_items :: "'a pyval \<Rightarrow> exn + (string \<times> 'a pyval) list" where
  "py_items (PDict kvs) = Inr kvs"
| "py_items _ = Inl AttributeError"

fun truth :: "'a numpy \<Rightarrow> 'a pyval \<Rightarrow> exn + bool" where
  "truth L PNone = Inr False"
| "truth L (PBool b) = Inr b"
| "truth L (PInt i) = Inr (i \<noteq> 0)"
| "truth L (PFloat r) = Inr (r \<noteq> 0)"
| "truth L (PStr s) = Inr (s \<noteq> [])"
| "truth L (PList vs) = Inr (vs \<noteq> [])"
| "truth L (PDict kvs) = Inr (kvs \<noteq> [])"
| "truth L (PArr a) = (case ndarray_bool L a of Inl m \<Rightarrow> Inl (NumpyError m) | Inr b \<Rightarrow> Inr b)"

text \<open>
  \<open>decode_model_api_response\<close>, on the object at address \<open>model_api_response\<close>. The
  right-hand side of the assignment is evaluated first; an exception there leaves the
  store as it was.
\<close>

definition decode_model_api_response ::
  "'a numpy \<Rightarrow> addr \<Rightarrow> 'a heap \<Rightarrow> (exn + addr) \<times> 'a heap" where
  "decode_model_api_response L model_api_response h =
     (case obj_getitem (h model_api_response) ''model_output_is_encoded'' of
        Inl e \<Rightarrow> (Inl e, h)
      | Inr flag \<Rightarrow>
          (case truth L flag of
             Inl e \<Rightarrow> (Inl e, h)
           | Inr encoded \<Rightarrow>
               (case obj_getitem (h model_api_response) ''model_outputs'' of
                  Inl e \<Rightarrow> (Inl e, h)
                | Inr outputs \<Rightarrow>
                    (case py_items outputs of
                       Inl e \<Rightarrow> (Inl e, h)
                     | Inr items \<Rightarrow>
                         (case (if encoded then
                                  comprehension
                                    (\<lambda>(key, arr).
                                       case dec_or_iterate L arr of
                                         Inl e \<Rightarrow> Inl e
                                       | Inr v \<Rightarrow> Inr (key, v))
                                    items
                                else
                                  comprehension
                                    (\<lambda>(key, arr).
                                       case np_array L arr of
                                         Inl m \<Rightarrow> Inl (NumpyError m)
                                       | Inr a \<Rightarrow> Inr (key, PArr a))
                                    items) of
                            Inl e \<Rightarrow> (Inl e, h)
                          | Inr decoded \<Rightarrow>
                              (case obj_setitem (h model_api_response) ''model_outputs''
                                      (PDict decoded) of
                                 Inl e \<Rightarrow> (Inl e, h)
                               | Inr ob \<Rightarrow>
                                   (Inr model_api_response, h(model_api_response := ob))))))))"

subsection \<open>\<open>__call__\<close>\<close>

text \<open>
  \<open>__call__\<close> hands what \<open>predict\<close> returned to \<open>decode_model_api_response\<close>. The
  returned object is new, so it gets the next free address of the store.
\<close>

record 'a store =
  heap :: "'a heap"
  free :: addr

definition new_object :: "'a obj \<Rightarrow> 'a store \<Rightarrow> addr \<times> 'a store" where
  "new_object ob s = (free s, s\<lparr>heap := (heap s)(free s := ob), free := Suc (free s)\<rparr>)"

definition call ::
  "client \<Rightarrow> server \<Rightarrow> 'a numpy \<Rightarrow> string \<Rightarrow> string \<Rightarrow> json \<Rightarrow> trace \<times> 'a store \<Rightarrow>
     (exn + addr) \<times> trace \<times> 'a store" where
  "call C N L model_name pipeline model_request ts =
     (case ts of (t, s) \<Rightarrow>
        (case predict C N model_name pipeline model_request t of
           (Inl e, t1) \<Rightarrow> (Inl e, t1, s)
         | (Inr prediction, t1) \<Rightarrow>
             (case new_object (case prediction of
                                 Result v \<Rightarrow> Obj (of_json v)
                               | Response r \<Rightarrow> ResponseObj r) s of
                (prediction_ref, s1) \<Rightarrow>
                  (case decode_model_api_response L prediction_ref (heap s1) of
                     (res, h2) \<Rightarrow> (res, t1, s1\<lparr>heap := h2\<rparr>)))))"

section \<open>Notions the properties are stated with\<close>

text \<open>
  The payloads of the deploy requests (\<open>POST /models/deploy\<close>) of a trace, in the order
  they were sent.
\<close>

fun deploy_calls :: "trace \<Rightarrow> json option list" where
  "deploy_calls [] = []"
| "deploy_calls (Sent rq # t) =
     (if verb rq = POST \<and> path rq = Models_deploy then payload rq # deploy_calls t
      else deploy_calls t)"
| "deploy_calls (Slept _ # t) = deploy_calls t"


text \<open>
  The polling request for a task, and the trace after \<open>i\<close> attempts that found the
  task pending: a request and a sleep each.
\<close>

definition poll_request :: "client \<Rightarrow> json \<Rightarrow> request" where
  "poll_request C task_id =
     \<lparr>verb = GET, base = square_api_url C, path = Main_task_result task_id, payload = None,
      verify = verify_ssl C\<rparr>"

fun pending :: "request \<Rightarrow> int \<Rightarrow> nat \<Rightarrow> trace \<Rightarrow> trace" where
  "pending rq secs 0 t = t"
| "pending rq secs (Suc i) t = pending rq secs i (t @ [Sent rq, Slept secs])"

text \<open>
  The server's answer to the attempt that follows \<open>i\<close> pending ones, and what makes an
  answer a pending one: a response whose status is not 200 (and whose body is JSON, which
  the client parses before it looks at the status).
\<close>

definition answer :: "server \<Rightarrow> request \<Rightarrow> int \<Rightarrow> trace \<Rightarrow> nat \<Rightarrow> outcome" where
  "answer N rq secs t i = N (pending rq secs i t @ [Sent rq])"

fun is_pending :: "outcome \<Rightarrow> bool" where
  "is_pending (Reply resp) = (status_code resp \<noteq> 200 \<and> parsed resp \<noteq> None)"
| "is_pending (Raises m) = False"

text \<open>
  A model record as \<open>deployed_models\<close> lists it: a dict with a \<open>model_name\<close> and a
  \<open>model_type\<close>.
\<close>

fun model_record :: "json \<Rightarrow> bool" where
  "model_record (JDict kvs) =
     (map_of kvs ''model_name'' \<noteq> None \<and> map_of kvs ''model_type'' \<noteq> None)"
| "model_record _ = False"

text \<open>
  A nested ordered sequence of encoded leaves: a string, or a list of such sequences.
  Its strings from left to right, the arrays of a decoded value from left to right, the
  nesting depth, and what it means for a decoded value to have the shape of an encoded one:
  a list for a list, of the same length, and an array for a string.
\<close>

fun encoded_seq :: "'a pyval \<Rightarrow> bool" where
  "encoded_seq (PStr s) = True"
| "encoded_seq (PList vs) = list_all encoded_seq vs"
| "encoded_seq _ = False"

fun leaves :: "'a pyval \<Rightarrow> string list" where
  "leaves (PStr s) = [s]"
| "leaves (PList vs) = concat (map leaves vs)"
| "leaves _ = []"

fun arrays :: "'a pyval \<Rightarrow> 'a list" where
  "arrays (PArr a) = [a]"
| "arrays (PList vs) = concat (map arrays vs)"
| "arrays _ = []"

fun depth :: "'a pyval \<Rightarrow> nat" where
  "depth (PList vs) = Suc (fold max (map depth vs) 0)"
| "depth _ = 0"

fun same_shape :: "'a pyval \<Rightarrow> 'a pyval \<Rightarrow> bool" where
  "same_shape (PStr s) w = (case w of PArr _ \<Rightarrow> True | _ \<Rightarrow> False)"
| "same_shape (PList vs) w = (case w of PList ws \<Rightarrow> list_all2 same_shape vs ws | _ \<Rightarrow> False)"
| "same_shape _ w = False"

text \<open>
  An entry of \<open>model_outputs\<close> and its decoded form: the key is kept, and the value is
  what \<open>dec_or_iterate\<close> returns for it (encoded outputs) or the array \<open>np.array\<close> makes
  of it (plain outputs).
\<close>

definition decoded_entry ::
  "'a numpy \<Rightarrow> bool \<Rightarrow> string \<times> 'a pyval \<Rightarrow> string \<times> 'a pyval \<Rightarrow> bool" where
  "decoded_entry L encoded kv kw =
     (fst kw = fst kv \<and>
      (if encoded then dec_or_iterate L (snd kv) = Inr (snd kw)
       else (case np_array L (snd kv) of Inl m \<Rightarrow> False | Inr a \<Rightarrow> snd kw = PArr a)))"

section \<open>Example servers and an example library\<close>

text \<open>
  A server that answers by the path of the request it has just received. A task is pending
  (404) for the first \<open>k\<close> polls and done from then on.
\<close>

definition reply :: "int \<Rightarrow> json \<Rightarrow> outcome" where
  "reply code body = Reply \<lparr>status_code = code, parsed = Some body\<rparr>"

fun polls :: "trace \<Rightarrow> nat" where
  "polls [] = 0"
| "polls (Sent rq # t) = (case path rq of Main_task_result _ \<Rightarrow> Suc (polls t) | _ \<Rightarrow> polls t)"
| "polls (Slept _ # t) = polls t"

definition example_server :: "json \<Rightarrow> json \<Rightarrow> nat \<Rightarrow> json \<Rightarrow> server" where
  "example_server deployed running k task_result t =
     (case rev t of
        Sent rq # _ \<Rightarrow>
          (case path rq of
             Main_task_result _ \<Rightarrow>
               if polls t \<le> k then reply 404 (JDict [])
               else reply 200 (JDict [(''result'', task_result)])
           | Main_predict _ _ \<Rightarrow> reply 200 (JDict [(''task_id'', JStr ''p1'')])
           | Models_deployed_models \<Rightarrow> reply 200 deployed
           | Models_deploy \<Rightarrow> reply 200 (JDict [(''task_id'', JStr ''d1'')])
           | Models_task \<Rightarrow> reply 200 running)
      | _ \<Rightarrow> Raises ''no request'')"

text \<open>
  The answer of \<open>/models/task\<close> when worker \<open>w1\<close> has one deployment task in its
  queue, for the given model name and type.
\<close>

definition running_deploy_task :: "string \<Rightarrow> string \<Rightarrow> json" where
  "running_deploy_task model_name model_type =
     JDict [(''w1'',
       JDict [(''active'',
         JList [JDict [(''name'', JStr ''tasks.tasks.deploy_task''),
                       (''args'', JList [JDict [(''MODEL_NAME'', JStr model_name),
                                               (''MODEL_TYPE'', JStr model_type)]])]])])]"


text \<open>A server whose tasks never finish.\<close>

definition never_ready :: server where
  "never_ready t = reply 404 (JDict [])"

text \<open>
  A stand-in for numpy in the examples: an array is the list of the numbers it holds, a
  serialised array is read as the codes of its characters, and \<open>np.array\<close> flattens.
\<close>

fun flatten :: "int list pyval \<Rightarrow> int list" where
  "flatten (PInt i) = [i]"
| "flatten (PList vs) = concat (map flatten vs)"
| "flatten (PStr s) = map (\<lambda>c. int (of_char c)) s"
| "flatten (PArr a) = a"
| "flatten _ = []"

definition example_numpy :: "int list numpy" where
  "example_numpy =
     \<lparr>b64_decodebytes = (\<lambda>s. if s = [] then Inl ''Incorrect padding'' else Inr s),
      np_load = (\<lambda>b. Inr (map (\<lambda>c. int (of_char c)) b)),
      np_array = (\<lambda>v. Inr (flatten v)),
      ndarray_bool = (\<lambda>a. if length a = 1 then Inr (a \<noteq> [0]) else Inl ''ambiguous''),
      ndarray_dec = (\<lambda>a. if a = [] then Inr (PList []) else Inl UnexpectedValue)\<rparr>"

definition example_client :: client where
  "example_client = init (Some ''https://square.test/api'') (Some ''1'')"

text \<open>A task result as the model API sends it, with plain and with encoded outputs.\<close>

definition plain_result :: json where
  "plain_result =
     JDict [(''model_outputs'', JDict [(''logits'', JList [JInt 1, JInt 2])]),
            (''model_output_is_encoded'', JBool False),
            (''labels'', JList [JInt 0])]"

definition encoded_result :: json where
  "encoded_result =
     JDict [(''model_outputs'', JDict [(''logits'', JList [JStr ''ab'', JList [JStr ''c'']])]),
            (''model_output_is_encoded'', JBool True),
            (''labels'', JList [JInt 0])]"

text \<open>A store whose object at address 0 is a parsed response.\<close>

definition example_heap :: "json \<Rightarrow> int list heap" where
  "example_heap j = (\<lambda>a. Obj PNone)(0 := Obj (of_json j))"

section \<open>Properties of the payload codec\<close>

lemma comprehension_Inr_D:
  "comprehension f xs = Inr ys \<Longrightarrow> list_all2 (\<lambda>x y. f x = Inr y) xs ys"
  by (induction xs arbitrary: ys) (auto split: sum.splits)

lemma comprehension_Inr_I:
  "list_all2 (\<lambda>x y. f x = Inr y) xs ys \<Longrightarrow> comprehension f xs = Inr ys"
  by (induction xs ys rule: list_all2_induct) auto

lemma comprehension_Inr:
  "comprehension f xs = Inr ys \<longleftrightarrow> list_all2 (\<lambda>x y. f x = Inr y) xs ys"
  using comprehension_Inr_D comprehension_Inr_I by blast

lemma comprehension_Inl:
  "comprehension f xs = Inl e \<Longrightarrow> \<exists>x\<in>set xs. f x = Inl e"
  by (induction xs) (auto split: sum.splits)

lemma map_of_dict_assign:
  "map_of (dict_assign k v kvs) k' = (if k' = k then Some v else map_of kvs k')"
  by (induction kvs) auto

lemma keys_dict_assign:
  "map_of kvs k = Some w \<Longrightarrow> map fst (dict_assign k v kvs) = map fst kvs"
  by (induction kvs) (auto split: if_splits)

lemma obj_getitem_Inr:
  "obj_getitem ob k = Inr v \<longleftrightarrow> (\<exists>kvs. ob = Obj (PDict kvs) \<and> map_of kvs k = Some v)"
  by (cases "(ob, k)" rule: obj_getitem.cases) (auto split: option.splits)

lemma py_items_Inr: "py_items v = Inr kvs \<longleftrightarrow> v = PDict kvs"
  by (cases v) auto

lemma decoded_entry_True:
  "(case kv of (key, arr) \<Rightarrow>
      case dec_or_iterate L arr of Inl e \<Rightarrow> Inl e | Inr v \<Rightarrow> Inr (key, v)) = Inr kw
   \<longleftrightarrow> decoded_entry L True kv kw"
  by (cases kv; cases kw) (auto simp: decoded_entry_def split: sum.splits)

lemma decoded_entry_False:
  "(case kv of (key, arr) \<Rightarrow>
      case np_array L arr of Inl m \<Rightarrow> Inl (NumpyError m) | Inr a \<Rightarrow> Inr (key, PArr a)) = Inr kw
   \<longleftrightarrow> decoded_entry L False kv kw"
  by (cases kv; cases kw) (auto simp: decoded_entry_def split: sum.splits)

text \<open>
  The two ways \<open>decode_model_api_response\<close> ends: it raises and the store is as before,
  or it returns the address it was given and the dict there has a new \<open>model_outputs\<close>.
\<close>

lemma decode_cases:
  assumes "decode_model_api_response L r h = (res, h')"
  shows "(\<exists>e. res = Inl e \<and> h' = h) \<or>
         (\<exists>kvs flag encoded outputs decoded.
            res = Inr r \<and> h r = Obj (PDict kvs) \<and>
            map_of kvs ''model_output_is_encoded'' = Some flag \<and> truth L flag = Inr encoded \<and>
            map_of kvs ''model_outputs'' = Some (PDict outputs) \<and>
            list_all2 (decoded_entry L encoded) outputs decoded \<and>
            h' = h(r := Obj (PDict (dict_assign ''model_outputs'' (PDict decoded) kvs))))"
proof (cases "obj_getitem (h r) ''model_output_is_encoded''")
  case (Inl e)
  with assms show ?thesis by (auto simp: decode_model_api_response_def)
next
  case f: (Inr flag)
  then obtain kvs where k: "h r = Obj (PDict kvs)"
      "map_of kvs ''model_output_is_encoded'' = Some flag"
    by (auto simp: obj_getitem_Inr)
  show ?thesis
  proof (cases "truth L flag")
    case (Inl e)
    with assms f show ?thesis by (auto simp: decode_model_api_response_def)
  next
    case t: (Inr encoded)
    show ?thesis
    proof (cases "obj_getitem (h r) ''model_outputs''")
      case (Inl e)
      with assms f t show ?thesis by (auto simp: decode_model_api_response_def)
    next
      case o: (Inr outputs)
      show ?thesis
      proof (cases "py_items outputs")
        case (Inl e)
        with assms f t o show ?thesis by (auto simp: decode_model_api_response_def)
      next
        case i: (Inr items)
        with o k have m: "map_of kvs ''model_outputs'' = Some (PDict items)"
          by (auto simp: py_items_Inr split: option.splits)
        let ?c = "if encoded
           then comprehension
                  (\<lambda>(key, arr). case dec_or_iterate L arr of
                                  Inl e \<Rightarrow> Inl e | Inr v \<Rightarrow> Inr (key, v)) items
           else comprehension
                  (\<lambda>(key, arr). case np_array L arr of
                                  Inl m \<Rightarrow> Inl (NumpyError m) | Inr a \<Rightarrow> Inr (key, PArr a)) items"
        show ?thesis
        proof (cases ?c)
          case (Inl e)
          with assms f t o i show ?thesis by (auto simp: decode_model_api_response_def)
        next
          case c: (Inr decoded)
          then have d: "list_all2 (decoded_entry L encoded) items decoded"
            by (cases encoded)
              (simp_all add: comprehension_Inr decoded_entry_True decoded_entry_False)
          from assms f t o i c k have "res = Inr r"
            "h' = h(r := Obj (PDict (dict_assign ''model_outputs'' (PDict decoded) kvs)))"
            by (simp_all add: decode_model_api_response_def)
          with k t m d show ?thesis by blast
        qed
      qed
    qed
  qed
qed

text \<open>
  Claim C9. \<open>decode_model_api_response\<close> returns the object it was given: the address
  it returns is the address it got. The dict at that address has the same keys in the same
  order, every key but \<open>model_outputs\<close> has the value it had, and \<open>model_outputs\<close> holds
  a new dict with the decoded form of each of its old entries. No other object of the store
  changes; when the function raises, no object does.
\<close>

theorem decode_returns_same_object:
  "case decode_model_api_response L r h of
     (Inl e, h') \<Rightarrow> h' = h
   | (Inr r', h') \<Rightarrow>
       r' = r \<and> (\<forall>a. a \<noteq> r \<longrightarrow> h' a = h a) \<and>
       (\<exists>kvs kvs' flag encoded outputs decoded.
          h r = Obj (PDict kvs) \<and> h' r = Obj (PDict kvs') \<and>
          map fst kvs' = map fst kvs \<and>
          (\<forall>k. k \<noteq> ''model_outputs'' \<longrightarrow> map_of kvs' k = map_of kvs k) \<and>
          map_of kvs ''model_output_is_encoded'' = Some flag \<and> truth L flag = Inr encoded \<and>
          map_of kvs ''model_outputs'' = Some (PDict outputs) \<and>
          map_of kvs' ''model_outputs'' = Some (PDict decoded) \<and>
          list_all2 (decoded_entry L encoded) outputs decoded)"
proof (cases "decode_model_api_response L r h")
  case (Pair res h')
  from decode_cases[OF Pair] show ?thesis
  proof
    assume "\<exists>e. res = Inl e \<and> h' = h"
    with Pair show ?thesis by auto
  next
    assume "\<exists>kvs flag encoded outputs decoded.
            res = Inr r \<and> h r = Obj (PDict kvs) \<and>
            map_of kvs ''model_output_is_encoded'' = Some flag \<and> truth L flag = Inr encoded \<and>
            map_of kvs ''model_outputs'' = Some (PDict outputs) \<and>
            list_all2 (decoded_entry L encoded) outputs decoded \<and>
            h' = h(r := Obj (PDict (dict_assign ''model_outputs'' (PDict decoded) kvs)))"
    then obtain kvs flag encoded outputs decoded where
      *: "res = Inr r" "h r = Obj (PDict kvs)"
         "map_of kvs ''model_output_is_encoded'' = Some flag" "truth L flag = Inr encoded"
         "map_of kvs ''model_outputs'' = Some (PDict outputs)"
         "list_all2 (decoded_entry L encoded) outputs decoded"
         "h' = h(r := Obj (PDict (dict_assign ''model_outputs'' (PDict decoded) kvs)))"
      by blast
    let ?kvs' = "dict_assign ''model_outputs'' (PDict decoded) kvs"
    have "h' r = Obj (PDict ?kvs')" "\<forall>a. a \<noteq> r \<longrightarrow> h' a = h a"
      using * by simp_all
    moreover have "map fst ?kvs' = map fst kvs"
      using *(5) by (rule keys_dict_assign)
    moreover have "\<forall>k. k \<noteq> ''model_outputs'' \<longrightarrow> map_of ?kvs' k = map_of kvs k"
      "map_of ?kvs' ''model_outputs'' = Some (PDict decoded)"
      by (simp_all add: map_of_dict_assign)
    ultimately show ?thesis
      using Pair * by (simp del: dict_assign.simps)
  qed
qed

theorem decode_returns_same_object_witness:
  "decode_model_api_response example_numpy 0 (example_heap encoded_result) =
     (Inr 0,
      (example_heap encoded_result)
        (0 := Obj (PDict
           [(''model_outputs'', PDict [(''logits'', PList [PArr [97, 98], PList [PArr [99]]])]),
            (''model_output_is_encoded'', PBool True),
            (''labels'', PList [PInt 0])])))"
  using decode_returns_same_object [where L = example_numpy and r = 0
      and h = "example_heap encoded_result"]
  by (simp add: decode_model_api_response_def example_heap_def encoded_result_def
      example_numpy_def decode_def)

text \<open>
  Claim C5, as the specification states it: decoding is pure, the response it is given is
  afterwards what it was before. It is not: the response at address 0 has a list of numbers
  under \<open>logits\<close> before the call and an array after it.
\<close>

theorem decode_pure_counterexample:
  "snd (decode_model_api_response example_numpy 0 (example_heap plain_result)) 0
     \<noteq> example_heap plain_result 0"
  by (simp add: decode_model_api_response_def example_heap_def plain_result_def
      example_numpy_def)

text \<open>
  Claim C5, amended. \<open>decode_model_api_response\<close> is not pure. It has one effect, the
  assignment of the decoded outputs to the \<open>model_outputs\<close> entry of the dict it is given:
  when it returns, that entry holds a new dict with the decoded form of each of its old
  entries, and it does return so whenever each entry has a decoded form. Every other object
  of the store is left as it was; the dict it is given keeps its keys in their order and the
  value of every key but \<open>model_outputs\<close>; and the store is unchanged when the function
  raises and when what it is given is not a dict.
\<close>

theorem decode_only_assigns_model_outputs:
  "(case decode_model_api_response L r h of
      (res, h') \<Rightarrow>
        (\<forall>a. a \<noteq> r \<longrightarrow> h' a = h a) \<and>
        (\<forall>e. res = Inl e \<longrightarrow> h' = h) \<and>
        (\<forall>kvs. h r = Obj (PDict kvs) \<longrightarrow>
           (\<exists>kvs'. h' r = Obj (PDict kvs') \<and> map fst kvs' = map fst kvs \<and>
              (\<forall>k. k \<noteq> ''model_outputs'' \<longrightarrow> map_of kvs' k = map_of kvs k))) \<and>
        ((\<forall>kvs. h r \<noteq> Obj (PDict kvs)) \<longrightarrow> h' = h) \<and>
        (\<forall>r'. res = Inr r' \<longrightarrow>
           (\<exists>kvs kvs' flag encoded outputs decoded.
              h r = Obj (PDict kvs) \<and> h' r = Obj (PDict kvs') \<and>
              map_of kvs ''model_output_is_encoded'' = Some flag \<and>
              truth L flag = Inr encoded \<and>
              map_of kvs ''model_outputs'' = Some (PDict outputs) \<and>
              map_of kvs' ''model_outputs'' = Some (PDict decoded) \<and>
              list_all2 (decoded_entry L encoded) outputs decoded))) \<and>
   (\<forall>kvs flag encoded outputs decoded.
      h r = Obj (PDict kvs) \<and> map_of kvs ''model_output_is_encoded'' = Some flag \<and>
      truth L flag = Inr encoded \<and> map_of kvs ''model_outputs'' = Some (PDict outputs) \<and>
      list_all2 (decoded_entry L encoded) outputs decoded \<longrightarrow>
      decode_model_api_response L r h =
        (Inr r, h(r := Obj (PDict (dict_assign ''model_outputs'' (PDict decoded) kvs)))))"
proof (rule conjI)
  show "case decode_model_api_response L r h of
      (res, h') \<Rightarrow>
        (\<forall>a. a \<noteq> r \<longrightarrow> h' a = h a) \<and>
        (\<forall>e. res = Inl e \<longrightarrow> h' = h) \<and>
        (\<forall>kvs. h r = Obj (PDict kvs) \<longrightarrow>
           (\<exists>kvs'. h' r = Obj (PDict kvs') \<and> map fst kvs' = map fst kvs \<and>
              (\<forall>k. k \<noteq> ''model_outputs'' \<longrightarrow> map_of kvs' k = map_of kvs k))) \<and>
        ((\<forall>kvs. h r \<noteq> Obj (PDict kvs)) \<longrightarrow> h' = h) \<and>
        (\<forall>r'. res = Inr r' \<longrightarrow>
           (\<exists>kvs kvs' flag encoded outputs decoded.
              h r = Obj (PDict kvs) \<and> h' r = Obj (PDict kvs') \<and>
              map_of kvs ''model_output_is_encoded'' = Some flag \<and>
              truth L flag = Inr encoded \<and>
              map_of kvs ''model_outputs'' = Some (PDict outputs) \<and>
              map_of kvs' ''model_outputs'' = Some (PDict decoded) \<and>
              list_all2 (decoded_entry L encoded) outputs decoded))"
  proof (cases "decode_model_api_response L r h")
    case (Pair res h')
    from decode_cases[OF Pair] show ?thesis
    proof
      assume "\<exists>e. res = Inl e \<and> h' = h"
      with Pair show ?thesis by auto
    next
      assume "\<exists>kvs flag encoded outputs decoded.
              res = Inr r \<and> h r = Obj (PDict kvs) \<and>
              map_of kvs ''model_output_is_encoded'' = Some flag \<and> truth L flag = Inr encoded \<and>
              map_of kvs ''model_outputs'' = Some (PDict outputs) \<and>
              list_all2 (decoded_entry L encoded) outputs decoded \<and>
              h' = h(r := Obj (PDict (dict_assign ''model_outputs'' (PDict decoded) kvs)))"
      then obtain kvs flag encoded outputs decoded where
        *: "res = Inr r" "h r = Obj (PDict kvs)"
           "map_of kvs ''model_outputs'' = Some (PDict outputs)"
           "h' = h(r := Obj (PDict (dict_assign ''model_outputs'' (PDict decoded) kvs)))"
        and d: "map_of kvs ''model_output_is_encoded'' = Some flag" "truth L flag = Inr encoded"
           "list_all2 (decoded_entry L encoded) outputs decoded"
        by blast
      let ?kvs' = "dict_assign ''model_outputs'' (PDict decoded) kvs"
      have "map fst ?kvs' = map fst kvs"
        using *(3) by (rule keys_dict_assign)
      moreover have "\<forall>k. k \<noteq> ''model_outputs'' \<longrightarrow> map_of ?kvs' k = map_of kvs k"
        and "map_of ?kvs' ''model_outputs'' = Some (PDict decoded)"
        by (simp_all add: map_of_dict_assign)
      ultimately show ?thesis
        using Pair * d by (simp del: dict_assign.simps)
    qed
  qed
next
  show "\<forall>kvs flag encoded outputs decoded.
      h r = Obj (PDict kvs) \<and> map_of kvs ''model_output_is_encoded'' = Some flag \<and>
      truth L flag = Inr encoded \<and> map_of kvs ''model_outputs'' = Some (PDict outputs) \<and>
      list_all2 (decoded_entry L encoded) outputs decoded \<longrightarrow>
      decode_model_api_response L r h =
        (Inr r, h(r := Obj (PDict (dict_assign ''model_outputs'' (PDict decoded) kvs))))"
  proof (intro allI impI)
    fix kvs flag encoded outputs decoded
    assume a: "h r = Obj (PDict kvs) \<and> map_of kvs ''model_output_is_encoded'' = Some flag \<and>
      truth L flag = Inr encoded \<and> map_of kvs ''model_outputs'' = Some (PDict outputs) \<and>
      list_all2 (decoded_entry L encoded) outputs decoded"
    then have "(if encoded
           then comprehension
                  (\<lambda>(key, arr). case dec_or_iterate L arr of
                                  Inl e \<Rightarrow> Inl e | Inr v \<Rightarrow> Inr (key, v)) outputs
           else comprehension
                  (\<lambda>(key, arr). case np_array L arr of
                                  Inl m \<Rightarrow> Inl (NumpyError m) | Inr a \<Rightarrow> Inr (key, PArr a)) outputs)
          = Inr decoded"
      by (cases encoded)
        (simp_all add: comprehension_Inr decoded_entry_True decoded_entry_False)
    with a show "decode_model_api_response L r h =
        (Inr r, h(r := Obj (PDict (dict_assign ''model_outputs'' (PDict decoded) kvs))))"
      by (simp add: decode_model_api_response_def del: dict_assign.simps)
  qed
qed

theorem decode_only_assigns_model_outputs_witness:
  "decode_model_api_response example_numpy 0 (example_heap plain_result) =
     (Inr 0,
      (example_heap plain_result)
        (0 := Obj (PDict [(''model_outputs'', PDict [(''logits'', PArr [1, 2])]),
                          (''model_output_is_encoded'', PBool False),
                          (''labels'', PList [PInt 0])]))) \<and>
   snd (decode_model_api_response example_numpy 0 (example_heap plain_result)) 1 = Obj PNone"
proof -
  let ?kvs = "[(''model_outputs'', PDict [(''logits'', PList [PInt 1, PInt 2])]),
               (''model_output_is_encoded'', PBool False),
               (''labels'', PList [PInt 0])] :: (string \<times> int list pyval) list"
  have h0: "example_heap plain_result 0 = Obj (PDict ?kvs)"
    and h1: "example_heap plain_result 1 = Obj PNone"
    by (simp_all add: example_heap_def plain_result_def)
  have e: "list_all2 (decoded_entry example_numpy False)
             [(''logits'', PList [PInt 1, PInt 2])] [(''logits'', PArr [1, 2])]"
    by (simp add: decoded_entry_def example_numpy_def)
  from decode_only_assigns_model_outputs
    [where L = example_numpy and r = 0 and h = "example_heap plain_result",
      THEN conjunct2, rule_format,
      where kvs = ?kvs and flag = "PBool False" and encoded = False
        and outputs = "[(''logits'', PList [PInt 1, PInt 2])]"
        and decoded = "[(''logits'', PArr [1, 2])]"]
    h0 h1 e
  show ?thesis by simp
qed

text \<open>
  Claim C10. The \<open>ValueError\<close> for an unexpected leaf is raised only where
  \<open>model_output_is_encoded\<close> is true. Where it is false, no value of \<open>model_outputs\<close> is
  inspected: when \<open>np.array\<close> accepts each of them, strings included, the call returns and
  every value has become the array \<open>np.array\<close> made of it; and an exception on this
  branch is never that \<open>ValueError\<close>.
\<close>

theorem plain_outputs_not_validated:
  "(fst (decode_model_api_response L r h) = Inl UnexpectedValue \<longrightarrow>
      (\<exists>flag. obj_getitem (h r) ''model_output_is_encoded'' = Inr flag \<and>
              truth L flag = Inr True)) \<and>
   (\<forall>kvs flag outputs arrs.
      h r = Obj (PDict kvs) \<and> map_of kvs ''model_output_is_encoded'' = Some flag \<and>
      truth L flag = Inr False \<and> map_of kvs ''model_outputs'' = Some (PDict outputs) \<and>
      list_all2 (\<lambda>kv a. np_array L (snd kv) = Inr a) outputs arrs \<longrightarrow>
      decode_model_api_response L r h =
        (Inr r, h(r := Obj (PDict (dict_assign ''model_outputs''
                   (PDict (map2 (\<lambda>kv a. (fst kv, PArr a)) outputs arrs)) kvs)))))"
proof (intro conjI allI impI)
  assume u: "fst (decode_model_api_response L r h) = Inl UnexpectedValue"
  have g: "obj_getitem ob k \<noteq> Inl UnexpectedValue" for ob :: "'a obj" and k
    by (cases "(ob, k)" rule: obj_getitem.cases) (auto split: option.splits)
  have s: "obj_setitem ob k v \<noteq> Inl UnexpectedValue" for ob :: "'a obj" and k v
    by (cases "(ob, k, v)" rule: obj_setitem.cases) auto
  have i: "py_items v \<noteq> Inl UnexpectedValue" for v :: "'a pyval"
    by (cases v) auto
  have t: "truth L v \<noteq> Inl UnexpectedValue" for v :: "'a pyval"
    by (cases v) (auto split: sum.splits)
  have np: "comprehension
            (\<lambda>(key, arr). case np_array L arr of
                            Inl m \<Rightarrow> Inl (NumpyError m) | Inr a \<Rightarrow> Inr (key, PArr a)) items
           \<noteq> Inl UnexpectedValue" for items :: "(string \<times> 'a pyval) list"
    by (induction items) (auto split: sum.splits)
  show "\<exists>flag. obj_getitem (h r) ''model_output_is_encoded'' = Inr flag \<and>
              truth L flag = Inr True"
  proof (cases "obj_getitem (h r) ''model_output_is_encoded''")
    case (Inl e)
    with u g[of "h r" "''model_output_is_encoded''"] show ?thesis
      by (simp add: decode_model_api_response_def)
  next
    case f: (Inr flag)
    show ?thesis
    proof (cases "truth L flag")
      case (Inl e)
      with u f t[of flag] show ?thesis
        by (simp add: decode_model_api_response_def)
    next
      case tr: (Inr encoded)
      show ?thesis
      proof (cases encoded)
        case True
        with f tr show ?thesis by simp
      next
        case False
        show ?thesis
        proof (cases "obj_getitem (h r) ''model_outputs''")
          case (Inl e)
          with u f tr g[of "h r" "''model_outputs''"] show ?thesis
            by (simp add: decode_model_api_response_def)
        next
          case o: (Inr outputs)
          show ?thesis
          proof (cases "py_items outputs")
            case (Inl e)
            with u f tr o i[of outputs] show ?thesis
              by (simp add: decode_model_api_response_def)
          next
            case it: (Inr items)
            from u f tr o it False np[of items] s show ?thesis
              by (simp add: decode_model_api_response_def split: sum.splits)
          qed
        qed
      qed
    qed
  qed
next
  fix kvs flag outputs arrs
  assume a: "h r = Obj (PDict kvs) \<and> map_of kvs ''model_output_is_encoded'' = Some flag \<and>
      truth L flag = Inr False \<and> map_of kvs ''model_outputs'' = Some (PDict outputs) \<and>
      list_all2 (\<lambda>kv a. np_array L (snd kv) = Inr a) outputs arrs"
  then have "list_all2 (\<lambda>kv a. np_array L (snd kv) = Inr a) outputs arrs" by simp
  then have "comprehension
               (\<lambda>(key, arr). case np_array L arr of
                               Inl m \<Rightarrow> Inl (NumpyError m) | Inr a \<Rightarrow> Inr (key, PArr a)) outputs
             = Inr (map2 (\<lambda>kv a. (fst kv, PArr a)) outputs arrs)"
    by (induction outputs arrs rule: list_all2_induct) (auto split: prod.splits)
  with a show "decode_model_api_response L r h =
        (Inr r, h(r := Obj (PDict (dict_assign ''model_outputs''
                   (PDict (map2 (\<lambda>kv a. (fst kv, PArr a)) outputs arrs)) kvs))))"
    by (simp add: decode_model_api_response_def del: dict_assign.simps)
qed

theorem plain_outputs_not_validated_witness:
  "decode_model_api_response example_numpy 0
     (example_heap (JDict [(''model_output_is_encoded'', JBool False),
                           (''model_outputs'', JDict [(''text'', JStr ''ab'')])])) =
   (Inr 0,
    (example_heap (JDict [(''model_output_is_encoded'', JBool False),
                          (''model_outputs'', JDict [(''text'', JStr ''ab'')])]))
      (0 := Obj (PDict [(''model_output_is_encoded'', PBool False),
                        (''model_outputs'', PDict [(''text'', PArr [97, 98])])])))"
proof -
  let ?h = "example_heap (JDict [(''model_output_is_encoded'', JBool False),
                                 (''model_outputs'', JDict [(''text'', JStr ''ab'')])])"
  have "?h 0 = Obj (PDict [(''model_output_is_encoded'', PBool False),
                           (''model_outputs'', PDict [(''text'', PStr ''ab'')])])"
    by (simp add: example_heap_def)
  moreover have "list_all2 (\<lambda>kv a. np_array example_numpy (snd kv) = Inr a)
                   [(''text'', PStr ''ab'')] [[97, 98]]"
    by (simp add: example_numpy_def)
  ultimately show ?thesis
    using plain_outputs_not_validated [where L = example_numpy and r = 0 and h = ?h,
        THEN conjunct2, rule_format,
        where kvs = "[(''model_output_is_encoded'', PBool False),
                      (''model_outputs'', PDict [(''text'', PStr ''ab'')])]"
          and flag = "PBool False" and outputs = "[(''text'', PStr ''ab'')]"
          and arrs = "[[97, 98]]"]
    by simp
qed

text \<open>The properties of the elements of two lists, put together for the lists.\<close>

lemma list_all2_shape:
  assumes "list_all2 (\<lambda>v w. same_shape v w \<and> depth w = depth v \<and>
              map (decode L) (leaves v) = map Inr (arrays w)) vs ws"
  shows "list_all2 same_shape vs ws \<and> map depth ws = map depth vs \<and>
         map (decode L) (concat (map leaves vs)) = map Inr (concat (map arrays ws))"
  using assms by (induction vs ws rule: list_all2_induct) auto

text \<open>
  Claim C8. Decoding a nested ordered sequence of encoded leaves keeps its shape: the
  result has a list where the input has a list, of the same length, and an array where the
  input has a string; the nesting depth is the same, and the arrays from left to right are
  the decoded strings from left to right. Decoding raises only what decoding one of the
  strings raises.
\<close>

theorem dec_or_iterate_preserves_structure:
  "encoded_seq v \<Longrightarrow>
   (case dec_or_iterate L v of
      Inl e \<Rightarrow> \<exists>s\<in>set (leaves v). decode L s = Inl e
    | Inr w \<Rightarrow> same_shape v w \<and> depth w = depth v \<and>
               map (decode L) (leaves v) = map Inr (arrays w))"
proof (induction L v rule: dec_or_iterate.induct)
  case (1 L s)
  then show ?case by (auto split: sum.splits)
next
  case (2 L vs)
  show ?case
  proof (cases "comprehension (dec_or_iterate L) vs")
    case (Inl e)
    then obtain x where x: "x \<in> set vs" "dec_or_iterate L x = Inl e"
      using comprehension_Inl by fastforce
    with 2 have "\<exists>s\<in>set (leaves x). decode L s = Inl e"
      by (fastforce simp: list_all_iff)
    with x Inl show ?thesis by auto
  next
    case (Inr ws)
    then have "list_all2 (\<lambda>x y. dec_or_iterate L x = Inr y) vs ws"
      by (rule comprehension_Inr_D)
    then have "list_all2 (\<lambda>v w. same_shape v w \<and> depth w = depth v \<and>
              map (decode L) (leaves v) = map Inr (arrays w)) vs ws"
    proof (rule list.rel_mono_strong)
      fix x y assume "x \<in> set vs" "dec_or_iterate L x = Inr y"
      with 2 show "same_shape x y \<and> depth y = depth x \<and>
              map (decode L) (leaves x) = map Inr (arrays y)"
        by (fastforce simp: list_all_iff)
    qed
    from list_all2_shape[OF this] Inr show ?thesis by simp
  qed
qed simp_all

theorem dec_or_iterate_preserves_structure_witness:
  "encoded_seq (PList [PStr ''ab'', PList [PStr ''c'']] :: int list pyval) \<and>
   dec_or_iterate example_numpy (PList [PStr ''ab'', PList [PStr ''c'']]) =
     Inr (PList [PArr [97, 98], PList [PArr [99]]]) \<and>
   same_shape (PList [PStr ''ab'', PList [PStr ''c'']])
     (PList [PArr [97, 98], PList [PArr [99 :: int]]]) \<and>
   depth (PList [PArr [97, 98], PList [PArr [99 :: int]]]) = 2"
proof -
  have e: "encoded_seq (PList [PStr ''ab'', PList [PStr ''c'']] :: int list pyval)"
    by simp
  have d: "dec_or_iterate example_numpy (PList [PStr ''ab'', PList [PStr ''c'']]) =
     Inr (PList [PArr [97, 98], PList [PArr [99]]])"
    by (simp add: example_numpy_def decode_def)
  from dec_or_iterate_preserves_structure [OF e, of example_numpy] d e
  show ?thesis by simp
qed

section \<open>Properties of the task poller\<close>

declare wait_loop.simps [simp del]



lemma deploy_calls_append: "deploy_calls (t @ u) = deploy_calls t @ deploy_calls u"
  by (induction t rule: deploy_calls.induct) simp_all

text \<open>One turn of the loop, for every answer of the server.\<close>

lemma wait_loop_unfold:
  "wait_loop C N task_id max_att secs attempts t =
     (if attempts < max_att then
        (case N (t @ [Sent (poll_request C task_id)]) of
           Raises m \<Rightarrow> (Inl (RequestError m), t @ [Sent (poll_request C task_id)])
         | Reply resp \<Rightarrow>
             (case parsed resp of
                None \<Rightarrow> (Inl JSONDecodeError, t @ [Sent (poll_request C task_id)])
              | Some body \<Rightarrow>
                  if status_code resp = 200 then (Inr body, t @ [Sent (poll_request C task_id)])
                  else if secs < 0 then (Inl SleepError, t @ [Sent (poll_request C task_id)])
                  else wait_loop C N task_id max_att secs (attempts + 1)
                         (t @ [Sent (poll_request C task_id), Slept secs])))
      else (Inr JNone, t))"
  by (subst wait_loop.simps)
    (simp add: http_def response_json_def sleep_def poll_request_def
      split: outcome.splits option.splits)

text \<open>One turn of the loop, for each of the two answers that matter.\<close>

lemma wait_loop_pending_step:
  assumes "attempts < max_att" "0 \<le> secs"
    and "is_pending (N (t @ [Sent (poll_request C task_id)]))"
  shows "wait_loop C N task_id max_att secs attempts t =
         wait_loop C N task_id max_att secs (attempts + 1)
           (t @ [Sent (poll_request C task_id), Slept secs])"
proof -
  from assms(3) obtain resp body where
    "N (t @ [Sent (poll_request C task_id)]) = Reply resp" "status_code resp \<noteq> 200"
    "parsed resp = Some body"
    by (cases "N (t @ [Sent (poll_request C task_id)])") auto
  with assms(1,2) show ?thesis
    by (subst wait_loop.simps)
      (simp add: http_def poll_request_def response_json_def sleep_def)
qed

lemma wait_loop_done_step:
  assumes "attempts < max_att"
    and "N (t @ [Sent (poll_request C task_id)]) = Reply resp"
    and "status_code resp = 200" "parsed resp = Some body"
  shows "wait_loop C N task_id max_att secs attempts t =
         (Inr body, t @ [Sent (poll_request C task_id)])"
  using assms
  by (subst wait_loop.simps) (simp add: http_def poll_request_def response_json_def)

text \<open>
  A task that is pending at every attempt: the loop makes \<open>max_attempts\<close> attempts, each
  followed by a sleep, and ends with \<open>result\<close> still \<open>None\<close>.
\<close>

lemma wait_loop_exhausted:
  assumes "0 \<le> secs"
    and "\<forall>i<n. is_pending (answer N (poll_request C task_id) secs t i)"
    and "max_att - attempts = int n"
  shows "wait_loop C N task_id max_att secs attempts t =
         (Inr JNone, pending (poll_request C task_id) secs n t)"
  using assms(2,3)
proof (induction n arbitrary: attempts t)
  case 0
  then show ?case by (subst wait_loop.simps) simp
next
  case (Suc n)
  let ?rq = "poll_request C task_id"
  from Suc.prems have "attempts < max_att" by simp
  moreover from Suc.prems(1) have "is_pending (N (t @ [Sent ?rq]))"
    by (auto simp: answer_def dest: spec[of _ 0])
  ultimately have "wait_loop C N task_id max_att secs attempts t =
      wait_loop C N task_id max_att secs (attempts + 1) (t @ [Sent ?rq, Slept secs])"
    using assms(1) by (intro wait_loop_pending_step)
  also have "\<dots> = (Inr JNone, pending ?rq secs n (t @ [Sent ?rq, Slept secs]))"
  proof (rule Suc.IH)
    show "\<forall>i<n. is_pending (answer N ?rq secs (t @ [Sent ?rq, Slept secs]) i)"
      using Suc.prems(1) by (auto simp: answer_def dest: spec[of _ "Suc _"])
    show "max_att - (attempts + 1) = int n" using Suc.prems(2) by simp
  qed
  finally show ?case by simp
qed

text \<open>
  A task that is pending for \<open>k\<close> attempts and done at the next, within the budget: the
  loop stops there, with the body of that response.
\<close>

lemma wait_loop_first_200:
  assumes "0 \<le> secs"
    and "\<forall>i<k. is_pending (answer N (poll_request C task_id) secs t i)"
    and "answer N (poll_request C task_id) secs t k = Reply resp"
    and "status_code resp = 200" "parsed resp = Some body"
    and "attempts + int k < max_att"
  shows "wait_loop C N task_id max_att secs attempts t =
         (Inr body, pending (poll_request C task_id) secs k t @ [Sent (poll_request C task_id)])"
  using assms(2,3,6)
proof (induction k arbitrary: attempts t)
  case 0
  with assms(4,5) show ?case
    by (simp add: answer_def wait_loop_done_step)
next
  case (Suc k)
  let ?rq = "poll_request C task_id"
  from Suc.prems have "attempts < max_att" by simp
  moreover from Suc.prems(1) have "is_pending (N (t @ [Sent ?rq]))"
    by (auto simp: answer_def dest: spec[of _ 0])
  ultimately have "wait_loop C N task_id max_att secs attempts t =
      wait_loop C N task_id max_att secs (attempts + 1) (t @ [Sent ?rq, Slept secs])"
    using assms(1) by (intro wait_loop_pending_step)
  also have "\<dots> = (Inr body, pending ?rq secs k (t @ [Sent ?rq, Slept secs]) @ [Sent ?rq])"
  proof (rule Suc.IH)
    show "\<forall>i<k. is_pending (answer N ?rq secs (t @ [Sent ?rq, Slept secs]) i)"
      using Suc.prems(1) by (auto simp: answer_def dest: spec[of _ "Suc _"])
    show "answer N ?rq secs (t @ [Sent ?rq, Slept secs]) k = Reply resp"
      using Suc.prems(2) by (simp add: answer_def)
    show "attempts + 1 + int k < max_att" using Suc.prems(3) by simp
  qed
  finally show ?case by simp
qed

text \<open>
  So a task that never gets status 200 makes \<open>_wait_for_task\<close> raise, after exactly
  \<open>max_attempts\<close> attempts: \<open>result\<close> is \<open>None\<close>, and \<open>result["result"]\<close> is a
  \<open>TypeError\<close>.
\<close>

lemma wait_for_task_exhausted:
  assumes "max_att = (case m of None \<Rightarrow> max_attempts C | Some m \<Rightarrow> m)"
    and "secs = (case p of None \<Rightarrow> poll_interval C | Some p \<Rightarrow> p)"
    and "0 \<le> max_att" "0 \<le> secs"
    and "\<forall>i < nat max_att. is_pending (answer N (poll_request C task_id) secs t i)"
  shows "wait_for_task C N task_id m p t =
         (Inl TypeError, pending (poll_request C task_id) secs (nat max_att) t)"
proof -
  have "wait_loop C N task_id max_att secs 0 t =
        (Inr JNone, pending (poll_request C task_id) secs (nat max_att) t)"
    using assms(3,4,5) by (intro wait_loop_exhausted) simp_all
  with assms(1,2) show ?thesis
    by (simp add: wait_for_task_def)
qed

text \<open>
  Claim C2, at the input of the specification's own test: three attempts, no delay, and a
  server that answers every poll with status 404. The client makes exactly three requests,
  each followed by a sleep, and then raises \<open>TypeError\<close>; it does not return \<open>None\<close>.
\<close>

theorem wait_for_task_never_ready:
  "wait_for_task example_client never_ready (JStr ''t1'') (Some 3) (Some 0) [] =
     (Inl TypeError,
      [Sent (poll_request example_client (JStr ''t1'')), Slept 0,
       Sent (poll_request example_client (JStr ''t1'')), Slept 0,
       Sent (poll_request example_client (JStr ''t1'')), Slept 0])"
proof -
  have "wait_for_task example_client never_ready (JStr ''t1'') (Some 3) (Some 0) [] =
        (Inl TypeError, pending (poll_request example_client (JStr ''t1'')) 0 (nat 3) [])"
    by (rule wait_for_task_exhausted) (simp_all add: answer_def never_ready_def reply_def)
  then show ?thesis by (simp add: numeral_3_eq_3)
qed

text \<open>
  A task that is pending for \<open>k\<close> attempts and done at the next: what
  \<open>_wait_for_task\<close> returns and what it has sent by then.
\<close>

lemma wait_for_task_done:
  assumes "max_att = (case m of None \<Rightarrow> max_attempts C | Some m \<Rightarrow> m)"
    and "secs = (case p of None \<Rightarrow> poll_interval C | Some p \<Rightarrow> p)"
    and "int k < max_att" "0 \<le> secs"
    and "\<forall>i<k. is_pending (answer N (poll_request C task_id) secs t i)"
    and "answer N (poll_request C task_id) secs t k = Reply resp"
    and "status_code resp = 200" "parsed resp = Some (JDict kvs)"
    and "map_of kvs ''result'' = Some v"
  shows "wait_for_task C N task_id m p t =
           (Inr v, pending (poll_request C task_id) secs k t @ [Sent (poll_request C task_id)])"
proof -
  have "wait_loop C N task_id max_att secs 0 t =
        (Inr (JDict kvs),
         pending (poll_request C task_id) secs k t @ [Sent (poll_request C task_id)])"
    using assms(4,5,6,7,8,3) by (intro wait_loop_first_200) simp_all
  with assms(1,2,9) show ?thesis
    by (simp add: wait_for_task_def)
qed




section \<open>Properties of the facade\<close>

text \<open>
  Whatever the server does, polling only adds to the trace, adds no deploy request, and
  never raises the \<open>ValueError\<close> of \<open>predict\<close>.
\<close>

lemma wait_loop_effects:
  "case wait_loop C N task_id max_att secs attempts t of
     (res, t') \<Rightarrow> (\<exists>evs. t' = t @ evs \<and> deploy_calls evs = []) \<and>
                  (\<forall>x. res \<noteq> Inl (UnknownPredictionMethod x))"
proof (induction C N task_id max_att secs attempts t rule: wait_loop.induct)
  case (1 C N task_id max_att interval attempts t)
  let ?rq = "poll_request C task_id"
  show ?case
  proof (cases "attempts < max_att \<and> (\<exists>resp body. N (t @ [Sent ?rq]) = Reply resp \<and>
          parsed resp = Some body \<and> status_code resp \<noteq> 200) \<and> 0 \<le> interval")
    case False
    then show ?thesis
      by (subst wait_loop_unfold)
        (auto simp: poll_request_def split: outcome.splits option.splits)
  next
    case True
    then obtain resp body where r: "N (t @ [Sent ?rq]) = Reply resp" "parsed resp = Some body"
      "status_code resp \<noteq> 200" by blast
    from True r have step: "wait_loop C N task_id max_att interval attempts t =
       wait_loop C N task_id max_att interval (attempts + 1) (t @ [Sent ?rq, Slept interval])"
      by (subst wait_loop_unfold) simp
    from True r have "case wait_loop C N task_id max_att interval (attempts + 1)
                             (t @ [Sent ?rq, Slept interval]) of
       (res, t') \<Rightarrow>
         (\<exists>evs. t' = (t @ [Sent ?rq, Slept interval]) @ evs \<and> deploy_calls evs = []) \<and>
         (\<forall>x. res \<noteq> Inl (UnknownPredictionMethod x))"
      by (intro "1.IH"[where x = "Inr resp" and xa = "Inr ()"])
        (simp_all add: http_def response_json_def sleep_def poll_request_def)
    with step show ?thesis
      by (auto simp: deploy_calls_append poll_request_def)
  qed
qed

lemma getitem_exn: "getitem j k \<noteq> Inl (UnknownPredictionMethod x)"
  by (cases "(j, k)" rule: getitem.cases) (auto split: option.splits)

lemma wait_for_task_effects:
  "case wait_for_task C N task_id m p t of
     (res, t') \<Rightarrow> (\<exists>evs. t' = t @ evs \<and> deploy_calls evs = []) \<and>
                  (\<forall>x. res \<noteq> Inl (UnknownPredictionMethod x))"
proof -
  let ?m = "case m of None \<Rightarrow> max_attempts C | Some m \<Rightarrow> m"
  let ?p = "case p of None \<Rightarrow> poll_interval C | Some p \<Rightarrow> p"
  obtain res t' where w: "wait_loop C N task_id ?m ?p 0 t = (res, t')"
    by (cases "wait_loop C N task_id ?m ?p 0 t")
  with wait_loop_effects[where C = C and N = N and task_id = task_id and max_att = ?m
      and secs = ?p and attempts = 0 and t = t]
  have "(\<exists>evs. t' = t @ evs \<and> deploy_calls evs = [])"
    "\<forall>x. res \<noteq> Inl (UnknownPredictionMethod x)"
    by simp_all
  with w show ?thesis
    by (cases res) (simp_all add: wait_for_task_def getitem_exn)
qed

text \<open>
  Claim C6. A prediction method outside the five supported ones makes \<open>predict\<close> raise its
  \<open>ValueError\<close> with the trace as it was: no request has been sent. With a supported
  method \<open>predict\<close> sends its request first, and whatever follows, it never raises that
  \<open>ValueError\<close>.
\<close>

theorem predict_validates_method:
  "(prediction_method \<notin> {''embedding'', ''sequence-classification'', ''token-classification'',
                          ''generation'', ''question-answering''} \<longrightarrow>
      predict C N model_identifier prediction_method input_data t =
        (Inl (UnknownPredictionMethod prediction_method), t)) \<and>
   (prediction_method \<in> {''embedding'', ''sequence-classification'', ''token-classification'',
                          ''generation'', ''question-answering''} \<longrightarrow>
      (\<forall>x. fst (predict C N model_identifier prediction_method input_data t)
             \<noteq> Inl (UnknownPredictionMethod x)) \<and>
      (\<exists>evs. snd (predict C N model_identifier prediction_method input_data t) =
               t @ Sent \<lparr>verb = POST, base = square_api_url C,
                         path = Main_predict model_identifier prediction_method,
                         payload = Some input_data, verify = verify_ssl C\<rparr> # evs))"
proof (intro conjI impI)
  assume "prediction_method \<notin> {''embedding'', ''sequence-classification'',
            ''token-classification'', ''generation'', ''question-answering''}"
  then show "predict C N model_identifier prediction_method input_data t =
        (Inl (UnknownPredictionMethod prediction_method), t)"
    by (simp add: predict_def supported_prediction_methods_def)
next
  let ?rq = "\<lparr>verb = POST, base = square_api_url C,
              path = Main_predict model_identifier prediction_method,
              payload = Some input_data, verify = verify_ssl C\<rparr>"
  assume "prediction_method \<in> {''embedding'', ''sequence-classification'',
            ''token-classification'', ''generation'', ''question-answering''}"
  then have s: "prediction_method \<in> set supported_prediction_methods"
    by (simp add: supported_prediction_methods_def)
  have w: "(\<forall>x. fst (wait_for_task C N task_id None None (t @ [Sent ?rq]))
                  \<noteq> Inl (UnknownPredictionMethod x)) \<and>
           (\<exists>evs. snd (wait_for_task C N task_id None None (t @ [Sent ?rq])) =
                    t @ Sent ?rq # evs)" for task_id
    using wait_for_task_effects[where C = C and N = N and task_id = task_id and m = None
        and p = None and t = "t @ [Sent ?rq]"]
    by (cases "wait_for_task C N task_id None None (t @ [Sent ?rq])") auto
  have "(\<forall>x. fst (predict C N model_identifier prediction_method input_data t)
             \<noteq> Inl (UnknownPredictionMethod x)) \<and>
      (\<exists>evs. snd (predict C N model_identifier prediction_method input_data t) =
               t @ Sent ?rq # evs)"
  proof (cases "N (t @ [Sent ?rq])")
    case (Raises m)
    with s show ?thesis by (simp add: predict_def http_def)
  next
    case (Reply response)
    show ?thesis
    proof (cases "parsed response")
      case None
      with s Reply show ?thesis by (simp add: predict_def http_def response_json_def)
    next
      case (Some result)
      show ?thesis
      proof (cases "status_code response = 200")
        case False
        with s Reply Some show ?thesis by (simp add: predict_def http_def response_json_def)
      next
        case True
        show ?thesis
        proof (cases "getitem result ''task_id''")
          case (Inl e)
          with s Reply Some True getitem_exn[of result "''task_id''"] show ?thesis
            by (simp add: predict_def http_def response_json_def)
        next
          case (Inr task_id)
          with s Reply Some True w[of task_id] show ?thesis
            by (cases "wait_for_task C N task_id None None (t @ [Sent ?rq])")
              (auto simp: predict_def http_def response_json_def split: sum.splits)
        qed
      qed
    qed
  qed
  then show "\<forall>x. fst (predict C N model_identifier prediction_method input_data t)
             \<noteq> Inl (UnknownPredictionMethod x)"
    and "\<exists>evs. snd (predict C N model_identifier prediction_method input_data t) =
               t @ Sent ?rq # evs"
    by simp_all
qed

theorem predict_validates_method_witness:
  "predict example_client (example_server JNone JNone 0 plain_result) ''bert'' ''bogus''
     (JDict []) [] = (Inl (UnknownPredictionMethod ''bogus''), []) \<and>
   fst (predict example_client (example_server JNone JNone 0 plain_result) ''bert''
     ''embedding'' (JDict []) []) \<noteq> Inl (UnknownPredictionMethod ''embedding'')"
  using predict_validates_method [where C = example_client
      and N = "example_server JNone JNone 0 plain_result" and model_identifier = "''bert''"
      and prediction_method = "''bogus''" and input_data = "JDict []" and t = "[]"]
    predict_validates_method [where C = example_client
      and N = "example_server JNone JNone 0 plain_result" and model_identifier = "''bert''"
      and prediction_method = "''embedding''" and input_data = "JDict []" and t = "[]"]
  by simp

text \<open>
  A call of \<open>predict\<close> that succeeds: the server accepts the request with status 200 and a
  task id, the task is pending for \<open>k\<close> polls and done at the next, within the default
  budget. \<open>predict\<close> then returns the \<open>result\<close> field of that last response as it was
  parsed.
\<close>

lemma predict_returns_polled_result:
  assumes "prediction_method \<in> set supported_prediction_methods"
    and "rq = \<lparr>verb = POST, base = square_api_url C,
                path = Main_predict model_identifier prediction_method,
                payload = Some input_data, verify = verify_ssl C\<rparr>"
    and "N (t @ [Sent rq]) = Reply accepted"
    and "status_code accepted = 200" "parsed accepted = Some (JDict akvs)"
    and "map_of akvs ''task_id'' = Some task_id"
    and "int k < max_attempts C" "0 \<le> poll_interval C"
    and "\<forall>i<k. is_pending (answer N (poll_request C task_id) (poll_interval C) (t @ [Sent rq]) i)"
    and "answer N (poll_request C task_id) (poll_interval C) (t @ [Sent rq]) k = Reply resp"
    and "status_code resp = 200" "parsed resp = Some (JDict kvs)"
    and "map_of kvs ''result'' = Some v"
  shows "predict C N model_identifier prediction_method input_data t =
           (Inr (Result v),
            pending (poll_request C task_id) (poll_interval C) k (t @ [Sent rq])
              @ [Sent (poll_request C task_id)])"
proof -
  have "wait_for_task C N task_id None None (t @ [Sent rq]) =
          (Inr v, pending (poll_request C task_id) (poll_interval C) k (t @ [Sent rq])
                    @ [Sent (poll_request C task_id)])"
    using assms(7-13)
    by (intro wait_for_task_done[where max_att = "max_attempts C" and resp = resp and kvs = kvs])
      simp_all
  with assms(1-6) show ?thesis
    by (simp add: predict_def http_def response_json_def)
qed

text \<open>
  Claim C4, as the specification states it: \<open>predict\<close> hands its caller the polled result
  after the codec has decoded it. It does not. Here the task's result has the list
  \<open>[1, 2]\<close> under \<open>logits\<close>; \<open>predict\<close> returns that result as it was parsed, and the
  decoded result is another value, with an array in that place.
\<close>

theorem predict_returns_undecoded_counterexample:
  "fst (predict example_client (example_server JNone JNone 0 plain_result) ''bert''
          ''embedding'' (JDict []) []) = Inr (Result plain_result) \<and>
   snd (decode_model_api_response example_numpy 0 (example_heap plain_result)) 0
     \<noteq> Obj (of_json plain_result)"
proof
  show "fst (predict example_client (example_server JNone JNone 0 plain_result) ''bert''
          ''embedding'' (JDict []) []) = Inr (Result plain_result)"
    by (simp add: predict_def supported_prediction_methods_def http_def example_server_def
        reply_def response_json_def wait_for_task_def example_client_def init_def
        wait_loop_unfold poll_request_def)
  show "snd (decode_model_api_response example_numpy 0 (example_heap plain_result)) 0
     \<noteq> Obj (of_json plain_result)"
    by (simp add: decode_model_api_response_def example_heap_def plain_result_def
        example_numpy_def)
qed

text \<open>
  Claim C4, amended. On a successful call \<open>predict\<close> returns the polled result as it was
  received, not decoded. The codec is applied by \<open>__call__\<close>: it calls \<open>predict\<close> and
  passes what \<open>predict\<close> returned, a new object, through \<open>decode_model_api_response\<close>
  before it returns it to its own caller.
\<close>

theorem call_decodes_what_predict_returns:
  assumes "prediction_method \<in> set supported_prediction_methods"
    and "rq = \<lparr>verb = POST, base = square_api_url C,
                path = Main_predict model_identifier prediction_method,
                payload = Some input_data, verify = verify_ssl C\<rparr>"
    and "N (t @ [Sent rq]) = Reply accepted"
    and "status_code accepted = 200" "parsed accepted = Some (JDict akvs)"
    and "map_of akvs ''task_id'' = Some task_id"
    and "int k < max_attempts C" "0 \<le> poll_interval C"
    and "\<forall>i<k. is_pending (answer N (poll_request C task_id) (poll_interval C) (t @ [Sent rq]) i)"
    and "answer N (poll_request C task_id) (poll_interval C) (t @ [Sent rq]) k = Reply resp"
    and "status_code resp = 200" "parsed resp = Some (JDict kvs)"
    and "map_of kvs ''result'' = Some v"
    and "t' = pending (poll_request C task_id) (poll_interval C) k (t @ [Sent rq])
                @ [Sent (poll_request C task_id)]"
  shows "predict C N model_identifier prediction_method input_data t = (Inr (Result v), t') \<and>
         call C N L model_identifier prediction_method input_data (t, s) =
           (case decode_model_api_response L (free s) ((heap s)(free s := Obj (of_json v))) of
              (res, h') \<Rightarrow> (res, t', \<lparr>heap = h', free = Suc (free s)\<rparr>))"
proof -
  have p: "predict C N model_identifier prediction_method input_data t = (Inr (Result v), t')"
    unfolding assms(14) using assms(1-13) by (rule predict_returns_polled_result)
  then show ?thesis
    by (simp add: call_def new_object_def split: prod.splits)
qed

theorem call_decodes_what_predict_returns_witness:
  "predict example_client (example_server JNone JNone 0 plain_result) ''bert'' ''embedding''
     (JDict []) [] =
     (Inr (Result plain_result),
      [Sent \<lparr>verb = POST, base = square_api_url example_client,
             path = Main_predict ''bert'' ''embedding'', payload = Some (JDict []),
             verify = verify_ssl example_client\<rparr>,
       Sent (poll_request example_client (JStr ''p1''))]) \<and>
   fst (call example_client (example_server JNone JNone 0 plain_result) example_numpy ''bert''
          ''embedding'' (JDict []) ([], \<lparr>heap = \<lambda>a. Obj PNone, free = 0\<rparr>)) = Inr 0 \<and>
   heap (snd (snd (call example_client (example_server JNone JNone 0 plain_result)
          example_numpy ''bert'' ''embedding'' (JDict []) ([], \<lparr>heap = \<lambda>a. Obj PNone, free = 0\<rparr>)))) 0 =
     Obj (PDict [(''model_outputs'', PDict [(''logits'', PArr [1, 2])]),
                 (''model_output_is_encoded'', PBool False),
                 (''labels'', PList [PInt 0])])"
proof -
  let ?N = "example_server JNone JNone 0 plain_result"
  let ?rq = "\<lparr>verb = POST, base = square_api_url example_client,
              path = Main_predict ''bert'' ''embedding'', payload = Some (JDict []),
              verify = verify_ssl example_client\<rparr>"
  let ?s = "\<lparr>heap = \<lambda>a. Obj PNone, free = 0\<rparr> :: int list store"
  have d: "decode_model_api_response example_numpy 0 ((\<lambda>a. Obj PNone)(0 := Obj (of_json plain_result)))
        = (Inr 0, ((\<lambda>a. Obj PNone)(0 := Obj (of_json plain_result)))(0 :=
            Obj (PDict [(''model_outputs'', PDict [(''logits'', PArr [1, 2])]),
                 (''model_output_is_encoded'', PBool False),
                 (''labels'', PList [PInt 0])])))"
    by (simp add: decode_model_api_response_def plain_result_def example_numpy_def)
  have "predict example_client ?N ''bert'' ''embedding'' (JDict []) [] =
          (Inr (Result plain_result), [Sent ?rq, Sent (poll_request example_client (JStr ''p1''))]) \<and>
        call example_client ?N example_numpy ''bert'' ''embedding'' (JDict []) ([], ?s) =
           (case decode_model_api_response example_numpy (free ?s)
                   ((heap ?s)(free ?s := Obj (of_json plain_result))) of
              (res, h') \<Rightarrow> (res, [Sent ?rq, Sent (poll_request example_client (JStr ''p1''))],
                            \<lparr>heap = h', free = Suc (free ?s)\<rparr>))"
    by (rule call_decodes_what_predict_returns
          [where k = 0 and task_id = "JStr ''p1''" and akvs = "[(''task_id'', JStr ''p1'')]"
            and accepted = "\<lparr>status_code = 200, parsed = Some (JDict [(''task_id'', JStr ''p1'')])\<rparr>"
            and resp = "\<lparr>status_code = 200, parsed = Some (JDict [(''result'', plain_result)])\<rparr>"
            and kvs = "[(''result'', plain_result)]" and rq = ?rq])
      (simp_all add: supported_prediction_methods_def example_server_def reply_def answer_def
        poll_request_def example_client_def init_def)
  with d show ?thesis by simp
qed

section \<open>Properties of the deployment guard\<close>

lemma py_eq_JStr: "py_eq x (JStr s) \<longleftrightarrow> x = JStr s"
  by (cases x) (auto split: json.splits)

lemma deployed_models_trace:
  "snd (deployed_models C N t) =
     t @ [Sent \<lparr>verb = GET, base = square_api_url C, path = Models_deployed_models,
                payload = None, verify = verify_ssl C\<rparr>]"
  by (simp add: deployed_models_def http_def Let_def split: outcome.splits)

lemma get_models_in_deployment_trace:
  "snd (get_models_in_deployment C N t) =
     t @ [Sent \<lparr>verb = GET, base = square_api_url C, path = Models_task,
                payload = None, verify = True\<rparr>]"
  by (simp add: get_models_in_deployment_def http_def Let_def split: outcome.splits sum.splits)

text \<open>\<open>deploy\<close> sends its one deploy request first; what follows is polling.\<close>

lemma deploy_trace:
  "\<exists>evs. snd (deploy C N model_attributes t) =
           t @ Sent \<lparr>verb = POST, base = square_api_url C, path = Models_deploy,
                      payload = Some model_attributes, verify = verify_ssl C\<rparr> # evs \<and>
         deploy_calls evs = []"
proof -
  let ?rq = "\<lparr>verb = POST, base = square_api_url C, path = Models_deploy,
              payload = Some model_attributes, verify = verify_ssl C\<rparr>"
  have w: "\<exists>evs. snd (wait_for_task C N task_id None (Some 20) (t @ [Sent ?rq])) =
                   t @ Sent ?rq # evs \<and> deploy_calls evs = []" for task_id
    using wait_for_task_effects[where C = C and N = N and task_id = task_id and m = None
        and p = "Some 20" and t = "t @ [Sent ?rq]"]
    by (cases "wait_for_task C N task_id None (Some 20) (t @ [Sent ?rq])") auto
  show ?thesis
  proof (cases "N (t @ [Sent ?rq])")
    case (Raises m)
    then show ?thesis by (simp add: deploy_def http_def)
  next
    case (Reply response)
    show ?thesis
    proof (cases "parsed response")
      case None
      with Reply show ?thesis by (simp add: deploy_def http_def response_json_def)
    next
      case (Some result)
      show ?thesis
      proof (cases "status_code response = 200")
        case False
        with Reply Some show ?thesis by (simp add: deploy_def http_def response_json_def)
      next
        case True
        show ?thesis
        proof (cases "getitem result ''task_id''")
          case (Inl e)
          with Reply Some True show ?thesis
            by (simp add: deploy_def http_def response_json_def)
        next
          case (Inr task_id)
          with Reply Some True w[of task_id] show ?thesis
            by (cases "wait_for_task C N task_id None (Some 20) (t @ [Sent ?rq])")
              (auto simp: deploy_def http_def response_json_def split: sum.splits)
        qed
      qed
    qed
  qed
qed

lemma deploy_calls_deploy:
  "deploy_calls (snd (deploy C N model_attributes t)) = deploy_calls t @ [Some model_attributes]"
proof -
  from deploy_trace[of C N model_attributes t] obtain evs where
    "snd (deploy C N model_attributes t) =
       t @ Sent \<lparr>verb = POST, base = square_api_url C, path = Models_deploy,
                  payload = Some model_attributes, verify = verify_ssl C\<rparr> # evs"
    "deploy_calls evs = []"
    by blast
  then show ?thesis by (simp add: deploy_calls_append)
qed

text \<open>
  The \<open>any(...)\<close> of the guard over model records, for a model name that is a string: it
  is true exactly when some record has that name and that type.
\<close>

lemma any_deployed_records:
  assumes "\<forall>m\<in>set records. model_record m"
  shows "any_deployed records (JStr model_name) model_type =
           Inr (\<exists>m\<in>set records. getitem m ''model_name'' = Inr (JStr model_name) \<and>
                                   getitem m ''model_type'' = Inr (JStr model_type))"
  using assms
proof (induction records)
  case Nil
  show ?case by simp
next
  case (Cons m records)
  then obtain kvs n ty where m: "m = JDict kvs" "map_of kvs ''model_name'' = Some n"
    "map_of kvs ''model_type'' = Some ty"
    by (cases m) auto
  with Cons show ?case
    by (auto simp: py_eq_JStr)
qed

text \<open>
  What the guard does when the model name is a string, both queries answer, and the
  deployed models are model records.
\<close>

lemma guard_unfold:
  assumes "map_of default_skill_args ''base_model'' = Some (JStr model_name)"
    and "model_name \<noteq> []"
    and "model_type = (if ''adapter'' \<in> fst ` set default_skill_args then ''adapter''
                       else ''transformer'')"
    and "deployed_models C N t = (Inr (JList records), t')"
    and "\<forall>m\<in>set records. model_record m"
    and "get_models_in_deployment C N t' = (Inr in_deployment, t'')"
  shows "deploy_model_if_not_exists C N default_skill_args t =
           (if \<exists>m\<in>set records. getitem m ''model_name'' = Inr (JStr model_name) \<and>
                                  getitem m ''model_type'' = Inr (JStr model_type)
            then (Inr (), t')
            else if dict_lookup in_deployment (JStr model_name) = Some (JStr model_type)
            then (Inr (), t'')
            else (case deploy C N (JDict [(''identifier'', JStr model_name),
                                          (''model_name'', JStr model_name),
                                          (''model_type'', JStr model_type)]) t'' of
                    (Inl e, u) \<Rightarrow> (Inl e, u) | (Inr r, u) \<Rightarrow> (Inr (), u)))"
proof -
  have ty: "model_type \<noteq> []" using assms(3) by auto
  have g: "dict_get in_deployment (JStr model_name) (JStr []) =
           Inr (case dict_lookup in_deployment (JStr model_name) of
                  None \<Rightarrow> JStr [] | Some v \<Rightarrow> v)"
    by (simp add: dict_get_def)
  have e: "py_eq (case dict_lookup in_deployment (JStr model_name) of
                    None \<Rightarrow> JStr [] | Some v \<Rightarrow> v) (JStr model_type) \<longleftrightarrow>
           dict_lookup in_deployment (JStr model_name) = Some (JStr model_type)"
    using ty by (auto simp: py_eq_JStr split: option.splits)
  have mt: "(if ''adapter'' \<in> set (map fst default_skill_args) then ''adapter''
             else ''transformer'') = model_type"
    using assms(3) by simp
  have n: "truthy (JStr model_name)" using assms(2) by simp
  note a = any_deployed_records[OF assms(5), of model_name model_type]
  show ?thesis
  proof (cases "\<exists>m\<in>set records. getitem m ''model_name'' = Inr (JStr model_name) \<and>
                                   getitem m ''model_type'' = Inr (JStr model_type)")
    case True
    with a have "any_deployed records (JStr model_name) model_type = Inr True" by simp
    with True assms(1,4) n mt show ?thesis
      by (simp add: deploy_model_if_not_exists_def)
  next
    case False
    with a have f: "any_deployed records (JStr model_name) model_type = Inr False" by simp
    from False have nf: "(\<exists>m\<in>set records. getitem m ''model_name'' = Inr (JStr model_name) \<and>
                            getitem m ''model_type'' = Inr (JStr model_type)) = False"
      by simp
    show ?thesis
    proof (cases "dict_lookup in_deployment (JStr model_name) = Some (JStr model_type)")
      case True
      with e have "py_eq (case dict_lookup in_deployment (JStr model_name) of
                    None \<Rightarrow> JStr [] | Some v \<Rightarrow> v) (JStr model_type)" by simp
      with True f g assms(1,4,6) n mt show ?thesis
        by (simp add: deploy_model_if_not_exists_def Let_def nf del: py_eq.simps)
    next
      case nd: False
      with e have "\<not> py_eq (case dict_lookup in_deployment (JStr model_name) of
                    None \<Rightarrow> JStr [] | Some v \<Rightarrow> v) (JStr model_type)" by simp
      with nd f g assms(1,4,6) n mt show ?thesis
        by (simp add: deploy_model_if_not_exists_def Let_def nf del: py_eq.simps)
    qed
  qed
qed

text \<open>
  Claim C1. Let the spec name a base model by a non-empty string, let
  \<open>deployed_models\<close> answer with a list of model records and
  \<open>get_models_in_deployment\<close> with a mapping. Then the guard sends a deploy request
  exactly when no record has both that name and the derived type and the mapping does not
  take that name to the derived type. It then sends exactly one, and its attributes are
  \<open>identifier\<close> and \<open>model_name\<close>, both the model name, and \<open>model_type\<close>.
\<close>

theorem deploy_model_if_not_exists_triggers_once:
  assumes "map_of default_skill_args ''base_model'' = Some (JStr model_name)"
    and "model_name \<noteq> []"
    and "model_type = (if ''adapter'' \<in> fst ` set default_skill_args then ''adapter''
                       else ''transformer'')"
    and "deployed_models C N t = (Inr (JList records), t')"
    and "\<forall>m\<in>set records. model_record m"
    and "get_models_in_deployment C N t' = (Inr in_deployment, t'')"
  shows "deploy_calls (snd (deploy_model_if_not_exists C N default_skill_args t)) =
           deploy_calls t @
           (if (\<forall>m\<in>set records. \<not> (getitem m ''model_name'' = Inr (JStr model_name) \<and>
                                       getitem m ''model_type'' = Inr (JStr model_type))) \<and>
               dict_lookup in_deployment (JStr model_name) \<noteq> Some (JStr model_type)
            then [Some (JDict [(''identifier'', JStr model_name),
                               (''model_name'', JStr model_name),
                               (''model_type'', JStr model_type)])]
            else [])"
proof -
  let ?attrs = "JDict [(''identifier'', JStr model_name), (''model_name'', JStr model_name),
                      (''model_type'', JStr model_type)]"
  have t': "deploy_calls t' = deploy_calls t"
    using deployed_models_trace[of C N t] assms(4) by (simp add: deploy_calls_append)
  have t'': "deploy_calls t'' = deploy_calls t"
    using get_models_in_deployment_trace[of C N t'] assms(6) t'
    by (simp add: deploy_calls_append)
  have d: "deploy_calls (snd (case deploy C N ?attrs t'' of
             (Inl e, u) \<Rightarrow> (Inl e, u) | (Inr r, u) \<Rightarrow> (Inr (), u))) =
           deploy_calls t @ [Some ?attrs]"
    using deploy_calls_deploy[of C N ?attrs t''] t''
    by (cases "deploy C N ?attrs t''") (auto split: sum.splits)
  show ?thesis
    unfolding guard_unfold[OF assms]
    using t' t'' d by auto
qed
theorem deploy_model_if_not_exists_triggers_once_witness:
  "deploy_calls (snd (deploy_model_if_not_exists example_client
      (example_server
         (JList [JDict [(''model_name'', JStr ''bert''), (''model_type'', JStr ''transformer'')]])
         (JDict []) 0 JNone)
      [(''base_model'', JStr ''bert'')] [])) = [] \<and>
   deploy_calls (snd (deploy_model_if_not_exists example_client
      (example_server (JList []) (running_deploy_task ''bert'' ''transformer'') 0 JNone)
      [(''base_model'', JStr ''bert'')] [])) = [] \<and>
   deploy_calls (snd (deploy_model_if_not_exists example_client
      (example_server (JList []) (JDict []) 0 JNone)
      [(''base_model'', JStr ''bert'')] [])) =
     [Some (JDict [(''identifier'', JStr ''bert''), (''model_name'', JStr ''bert''),
                   (''model_type'', JStr ''transformer'')])]"
proof (intro conjI)
  let ?spec = "[(''base_model'', JStr ''bert'')]"
  let ?dm = "\<lparr>verb = GET, base = square_api_url example_client, path = Models_deployed_models,
              payload = None, verify = verify_ssl example_client\<rparr>"
  let ?mt = "\<lparr>verb = GET, base = square_api_url example_client, path = Models_task,
              payload = None, verify = True\<rparr>"
  let ?bert = "JDict [(''model_name'', JStr ''bert''), (''model_type'', JStr ''transformer'')]"
  have dm: "deployed_models example_client (example_server deployed running 0 JNone) [] =
              (Inr deployed, [Sent ?dm])" for deployed running
    by (simp add: deployed_models_def http_def example_server_def reply_def response_json_def)
  have empty: "get_models_in_deployment example_client
                 (example_server deployed (JDict []) 0 JNone) [Sent ?dm] =
               (Inr [], [Sent ?dm, Sent ?mt])" for deployed
    by (simp add: get_models_in_deployment_def http_def example_server_def reply_def
        response_json_def raise_for_status_def)
  have running: "get_models_in_deployment example_client
                   (example_server deployed (running_deploy_task ''bert'' ''transformer'') 0 JNone)
                   [Sent ?dm] =
                 (Inr [(JStr ''bert'', JStr ''transformer'')], [Sent ?dm, Sent ?mt])" for deployed
    by (simp add: get_models_in_deployment_def http_def example_server_def reply_def
        response_json_def raise_for_status_def running_deploy_task_def dict_setitem_def)
  show "deploy_calls (snd (deploy_model_if_not_exists example_client
      (example_server (JList [?bert]) (JDict []) 0 JNone) ?spec [])) = []"
    using deploy_model_if_not_exists_triggers_once
      [where default_skill_args = ?spec and model_name = "''bert''"
        and model_type = "''transformer''" and records = "[?bert]" and t = "[]",
        OF _ _ _ dm _ empty]
    by simp
  show "deploy_calls (snd (deploy_model_if_not_exists example_client
      (example_server (JList []) (running_deploy_task ''bert'' ''transformer'') 0 JNone)
      ?spec [])) = []"
    using deploy_model_if_not_exists_triggers_once
      [where default_skill_args = ?spec and model_name = "''bert''"
        and model_type = "''transformer''" and records = "[]" and t = "[]",
        OF _ _ _ dm _ running]
    by simp
  show "deploy_calls (snd (deploy_model_if_not_exists example_client
      (example_server (JList []) (JDict []) 0 JNone) ?spec [])) =
     [Some (JDict [(''identifier'', JStr ''bert''), (''model_name'', JStr ''bert''),
                   (''model_type'', JStr ''transformer'')])]"
    using deploy_model_if_not_exists_triggers_once
      [where default_skill_args = ?spec and model_name = "''bert''"
        and model_type = "''transformer''" and records = "[]" and t = "[]",
        OF _ _ _ dm _ empty]
    by simp
qed

text \<open>
  Claim C7. The model type the guard derives from the spec is \<open>adapter\<close> when the spec
  has a key \<open>adapter\<close>, whatever its value, and \<open>transformer\<close> otherwise. It shows in
  what the guard sends: whatever the server answers, a deploy request of the guard is
  for the spec's base model and carries that type; and when nothing is deployed and
  nothing is in deployment, the guard does send that request.
\<close>

theorem derived_model_type:
  assumes "model_name = (case map_of default_skill_args ''base_model'' of
                           None \<Rightarrow> JNone | Some v \<Rightarrow> v)"
    and "attributes = JDict [(''identifier'', model_name), (''model_name'', model_name),
           (''model_type'', JStr (if ''adapter'' \<in> fst ` set default_skill_args
                                  then ''adapter'' else ''transformer''))]"
  shows "(deploy_calls (snd (deploy_model_if_not_exists C N default_skill_args t)) =
            deploy_calls t \<or>
          deploy_calls (snd (deploy_model_if_not_exists C N default_skill_args t)) =
            deploy_calls t @ [Some attributes]) \<and>
         (truthy model_name \<and> hashable model_name \<and>
          deployed_models C N t = (Inr (JList []), t') \<and>
          get_models_in_deployment C N t' = (Inr [], t'') \<longrightarrow>
          deploy_calls (snd (deploy_model_if_not_exists C N default_skill_args t)) =
            deploy_calls t @ [Some attributes])"
proof
  define ty where "ty = (if ''adapter'' \<in> set (map fst default_skill_args) then ''adapter''
                         else ''transformer'')"
  have at: "JDict [(''identifier'', model_name), (''model_name'', model_name),
                   (''model_type'', JStr ty)] = attributes"
    using assms(2) by (simp add: ty_def)
  obtain r1 t1 where d1: "deployed_models C N t = (r1, t1)"
    by (cases "deployed_models C N t")
  obtain r2 t2 where d2: "get_models_in_deployment C N t1 = (r2, t2)"
    by (cases "get_models_in_deployment C N t1")
  obtain r3 t3 where d3: "deploy C N attributes t2 = (r3, t3)"
    by (cases "deploy C N attributes t2")
  have c1: "deploy_calls t1 = deploy_calls t"
    using deployed_models_trace[of C N t] d1 by (simp add: deploy_calls_append)
  have c2: "deploy_calls t2 = deploy_calls t"
    using get_models_in_deployment_trace[of C N t1] d2 c1 by (simp add: deploy_calls_append)
  have c3: "deploy_calls t3 = deploy_calls t @ [Some attributes]"
    using deploy_calls_deploy[of C N attributes t2] d3 c2 by simp
  show "deploy_calls (snd (deploy_model_if_not_exists C N default_skill_args t)) =
            deploy_calls t \<or>
        deploy_calls (snd (deploy_model_if_not_exists C N default_skill_args t)) =
            deploy_calls t @ [Some attributes]"
    unfolding deploy_model_if_not_exists_def Let_def ty_def[symmetric] assms(1)[symmetric] at
    using d1 d2 d3 c1 c2 c3
    by (simp split: sum.splits bool.splits)
  show "truthy model_name \<and> hashable model_name \<and>
          deployed_models C N t = (Inr (JList []), t') \<and>
          get_models_in_deployment C N t' = (Inr [], t'') \<longrightarrow>
          deploy_calls (snd (deploy_model_if_not_exists C N default_skill_args t)) =
            deploy_calls t @ [Some attributes]"
  proof
    assume a: "truthy model_name \<and> hashable model_name \<and>
          deployed_models C N t = (Inr (JList []), t') \<and>
          get_models_in_deployment C N t' = (Inr [], t'')"
    with d1 d2 have "r1 = Inr (JList [])" "t1 = t'" "r2 = Inr []" "t2 = t''" by simp_all
    moreover have "ty \<noteq> []" by (simp add: ty_def)
    ultimately show "deploy_calls (snd (deploy_model_if_not_exists C N default_skill_args t)) =
            deploy_calls t @ [Some attributes]"
      unfolding deploy_model_if_not_exists_def Let_def ty_def[symmetric] assms(1)[symmetric] at
      using a d1 d2 d3 c3
      by (simp add: dict_get_def split: sum.splits)
  qed
qed

theorem derived_model_type_witness:
  "deploy_calls (snd (deploy_model_if_not_exists example_client
      (example_server (JList []) (JDict []) 0 JNone)
      [(''base_model'', JStr ''bert''), (''adapter'', JNone)] [])) =
     [Some (JDict [(''identifier'', JStr ''bert''), (''model_name'', JStr ''bert''),
                   (''model_type'', JStr ''adapter'')])] \<and>
   deploy_calls (snd (deploy_model_if_not_exists example_client
      (example_server (JList []) (JDict []) 0 JNone)
      [(''base_model'', JStr ''bert''), (''batch_size'', JInt 8)] [])) =
     [Some (JDict [(''identifier'', JStr ''bert''), (''model_name'', JStr ''bert''),
                   (''model_type'', JStr ''transformer'')])]"
proof -
  let ?N = "example_server (JList []) (JDict []) 0 JNone"
  let ?dm = "\<lparr>verb = GET, base = square_api_url example_client, path = Models_deployed_models,
              payload = None, verify = verify_ssl example_client\<rparr>"
  let ?mt = "\<lparr>verb = GET, base = square_api_url example_client, path = Models_task,
              payload = None, verify = True\<rparr>"
  have dm: "deployed_models example_client ?N [] = (Inr (JList []), [Sent ?dm])"
    by (simp add: deployed_models_def http_def example_server_def reply_def response_json_def)
  have empty: "get_models_in_deployment example_client ?N [Sent ?dm] =
               (Inr [], [Sent ?dm, Sent ?mt])"
    by (simp add: get_models_in_deployment_def http_def example_server_def reply_def
        response_json_def raise_for_status_def)
  from derived_model_type [where C = example_client and N = ?N and t = "[]"
      and default_skill_args = "[(''base_model'', JStr ''bert''), (''adapter'', JNone)]"
      and model_name = "JStr ''bert''" and t' = "[Sent ?dm]" and t'' = "[Sent ?dm, Sent ?mt]",
      OF _ refl, THEN conjunct2]
    derived_model_type [where C = example_client and N = ?N and t = "[]"
      and default_skill_args = "[(''base_model'', JStr ''bert''), (''batch_size'', JInt 8)]"
      and model_name = "JStr ''bert''" and t' = "[Sent ?dm]" and t'' = "[Sent ?dm, Sent ?mt]",
      OF _ refl, THEN conjunct2]
    dm empty
  show ?thesis by simp
qed

end
